theory Spec2Isabelle
  imports Main
begin

section \<open>JavaScript values, exceptions and the ambient clock\<close>

text \<open>
  The extension engine is dynamically typed: it receives \<open>unknown\<close> values and only ever
  asks three things of them: whether they are \<open>null\<close>/\<open>undefined\<close>, what \<open>typeof\<close>
  says, and whether the kind's membership test holds. Objects (Temporal instances and
  anything else) are the type parameter \<open>'o\<close>. Numbers are looked at through \<open>typeof\<close>
  and \<open>String\<close> only, so an integer payload is enough for them.
\<close>

datatype 'o jsval =
    JUndefined
  | JNull
  | JBool bool
  | JNumber int
  | JString string
  | JObject 'o

text \<open>A thrown JavaScript exception, by constructor, with its message.\<close>

datatype exn = Error string | RangeError string | TypeError string

fun typeof :: "'o jsval \<Rightarrow> string" where
  "typeof JUndefined = ''undefined''"
| "typeof JNull = ''object''"
| "typeof (JBool b) = ''boolean''"
| "typeof (JNumber n) = ''number''"
| "typeof (JString s) = ''string''"
| "typeof (JObject x) = ''object''"

text \<open>\<open>value == null\<close>: loose equality with null holds of null and undefined only.\<close>

fun loose_eq_null :: "'o jsval \<Rightarrow> bool" where
  "loose_eq_null JUndefined = True"
| "loose_eq_null JNull = True"
| "loose_eq_null v = False"

fun digit_char :: "nat \<Rightarrow> char" where
  "digit_char n = char_of (48 + n mod 10)"

fun show_nat_fuel :: "nat \<Rightarrow> nat \<Rightarrow> string" where
  "show_nat_fuel 0 n = [digit_char n]"
| "show_nat_fuel (Suc f) n =
     (if n < 10 then [digit_char n] else show_nat_fuel f (n div 10) @ [digit_char n])"

definition show_nat :: "nat \<Rightarrow> string" where
  "show_nat n = show_nat_fuel n n"

definition show_int :: "int \<Rightarrow> string" where
  "show_int i = (if i < 0 then ''-'' @ show_nat (nat (- i)) else show_nat (nat i))"

text \<open>
  \<open>String(v)\<close>. For an object it calls the object's own \<open>toString()\<close>, which is
  the parameter \<open>toStr\<close> here.
\<close>

fun String_js :: "('o \<Rightarrow> string) \<Rightarrow> 'o jsval \<Rightarrow> string" where
  "String_js toStr JUndefined = ''undefined''"
| "String_js toStr JNull = ''null''"
| "String_js toStr (JBool b) = (if b then ''true'' else ''false'')"
| "String_js toStr (JNumber n) = show_int n"
| "String_js toStr (JString s) = s"
| "String_js toStr (JObject x) = toStr x"

section \<open>What a rule and a step hand back to the host\<close>

text \<open>
  \<open>helpers.error(code, local)\<close> builds an error report: the message code and the local
  context from which the message template's tokens are filled.
\<close>

record 'o report =
  code :: string
  local :: "(string \<times> 'o jsval) list"

definition helpers_error :: "string \<Rightarrow> (string \<times> 'o jsval) list \<Rightarrow> 'o report" where
  "helpers_error c ctx = \<lparr> code = c, local = ctx \<rparr>"

text \<open>A rule validator returns either a value or an error report.\<close>

datatype 'o rule_result = Value "'o jsval" | Report "'o report"

text \<open>
  The coerce and validate steps return an object with an optional \<open>value\<close> and an
  optional \<open>errors\<close> entry.
\<close>

record 'o step_result =
  value_of :: "'o jsval option"
  errors_of :: "'o report option"

text \<open>
  A rule's \<open>method\<close> is what the schema author calls to attach the rule. The three
  method bodies of the source each make exactly one call on \<open>this\<close>: either the
  host's \<open>$_addRule\<close> with a rule name and named arguments, or another method of the
  schema.
\<close>

datatype 'o host_call =
    AddRule string "(string \<times> 'o jsval) list"
  | CallMethod string "'o jsval list"

record 'o arg_spec =
  arg_name :: string
  ref :: bool
  assert :: "'o jsval \<Rightarrow> bool"
  message :: string

text \<open>
  The clock \<open>'clk\<close> is the ambient state \<open>Temporal.Now\<close> reads; every function that
  can reach \<open>Temporal.Now\<close> takes it as an argument.
\<close>

record ('o, 'clk) rule =
  method_of :: "'o jsval list \<Rightarrow> 'o host_call"
  args :: "'o arg_spec list"
  validate :: "('clk \<Rightarrow> 'o jsval \<Rightarrow> (string \<times> 'o jsval) list \<Rightarrow> exn + 'o rule_result) option"

text \<open>The n-th positional argument of a call; a missing one is undefined.\<close>

definition positional :: "'o jsval list \<Rightarrow> nat \<Rightarrow> 'o jsval" where
  "positional as n = (if n < length as then as ! n else JUndefined)"

text \<open>Reading a named rule argument (\<open>{ limit }\<close>); a missing one is undefined.\<close>

definition named :: "(string \<times> 'o jsval) list \<Rightarrow> string \<Rightarrow> 'o jsval" where
  "named as k = (case map_of as k of None \<Rightarrow> JUndefined | Some v \<Rightarrow> v)"

section \<open>Config\<close>

record ('o, 'clk) TypeConfig =
  name :: string
  check :: "'o jsval \<Rightarrow> bool"
  parse :: "string \<Rightarrow> exn + 'o jsval"
  baseMessage :: string
  compare :: "('clk \<Rightarrow> 'o jsval \<Rightarrow> 'o jsval \<Rightarrow> exn + int) option"
  compareMessages :: "(string \<times> string) list option"
  now :: "('clk \<Rightarrow> 'o jsval) option"
  extraMessages :: "(string \<times> string) list option"
  extraRules :: "(string \<times> ('o, 'clk) rule) list option"

definition DEFAULT_COMPARE :: "(string \<times> string) list" where
  "DEFAULT_COMPARE =
    [(''min'', ''{{#label}} must be on or after {#limit}''),
     (''max'', ''{{#label}} must be on or before {#limit}''),
     (''gt'', ''{{#label}} must be after {#limit}''),
     (''lt'', ''{{#label}} must be before {#limit}'')]"

definition CHECKS :: "(string \<times> (int \<Rightarrow> bool)) list" where
  "CHECKS =
    [(''min'', \<lambda>c. c \<ge> 0),
     (''max'', \<lambda>c. c \<le> 0),
     (''gt'', \<lambda>c. c > 0),
     (''lt'', \<lambda>c. c < 0)]"

section \<open>Factory\<close>

definition prefix_of :: "('o, 'clk) TypeConfig \<Rightarrow> string" where
  "prefix_of config = ''temporal.'' @ name config"

text \<open>
  The limit a comparison rule compares against: \<open>config.now()\<close> for the token
  \<open>"now"\<close> on a kind that has \<open>now\<close>, the parsed text for any other string,
  the limit itself otherwise. A throwing \<open>parse\<close> is not caught here.
\<close>

definition resolve_limit ::
  "('o, 'clk) TypeConfig \<Rightarrow> 'clk \<Rightarrow> 'o jsval \<Rightarrow> exn + 'o jsval" where
  "resolve_limit config clk limit =
     (case (limit = JString ''now'', now config) of
        (True, Some current) \<Rightarrow> Inr (current clk)
      | _ \<Rightarrow> (case limit of JString s \<Rightarrow> parse config s | _ \<Rightarrow> Inr limit))"

text \<open>The \<open>validate\<close> function of one generated comparison rule.\<close>

definition comparison_validate ::
  "('o \<Rightarrow> string) \<Rightarrow> ('o, 'clk) TypeConfig \<Rightarrow> ('clk \<Rightarrow> 'o jsval \<Rightarrow> 'o jsval \<Rightarrow> exn + int)
    \<Rightarrow> string \<Rightarrow> (int \<Rightarrow> bool)
    \<Rightarrow> 'clk \<Rightarrow> 'o jsval \<Rightarrow> (string \<times> 'o jsval) list \<Rightarrow> exn + 'o rule_result" where
  "comparison_validate toStr config cmp rl chk clk v as =
     (case resolve_limit config clk (named as ''limit'') of
        Inl e \<Rightarrow> Inl e
      | Inr resolved \<Rightarrow>
          (case cmp clk v resolved of
             Inl e \<Rightarrow> Inl e
           | Inr c \<Rightarrow>
               if \<not> chk c
               then Inr (Report (helpers_error (prefix_of config @ ''.'' @ rl)
                                  [(''limit'', JString (String_js toStr resolved))]))
               else Inr (Value v)))"

definition comparison_rule ::
  "('o \<Rightarrow> string) \<Rightarrow> ('o, 'clk) TypeConfig \<Rightarrow> ('clk \<Rightarrow> 'o jsval \<Rightarrow> 'o jsval \<Rightarrow> exn + int)
    \<Rightarrow> string \<Rightarrow> (int \<Rightarrow> bool) \<Rightarrow> ('o, 'clk) rule" where
  "comparison_rule toStr config cmp rl chk =
     \<lparr> method_of = (\<lambda>as. AddRule rl [(''limit'', positional as 0)]),
       args = [\<lparr> arg_name = ''limit'', ref = True,
                 assert = (\<lambda>v. typeof v = ''string'' \<or> check config v),
                 message = ''must be a string or Temporal instance'' \<rparr>],
       validate = Some (comparison_validate toStr config cmp rl chk) \<rparr>"

text \<open>\<open>gte\<close> and \<open>lte\<close> have a method only: it calls \<open>this.min\<close> or \<open>this.max\<close>.\<close>

definition alias_rule :: "string \<Rightarrow> ('o, 'clk) rule" where
  "alias_rule target =
     \<lparr> method_of = (\<lambda>as. CallMethod target [positional as 0]), args = [], validate = None \<rparr>"

text \<open>
  The body of the loop over \<open>CHECKS\<close>: one message and one rule are added per entry.
  The state of the loop is the pair of tables being filled.
\<close>

type_synonym ('o, 'clk) tables = "(string \<rightharpoonup> string) \<times> (string \<rightharpoonup> ('o, 'clk) rule)"

definition add_comparison ::
  "('o \<Rightarrow> string) \<Rightarrow> ('o, 'clk) TypeConfig \<Rightarrow> ('clk \<Rightarrow> 'o jsval \<Rightarrow> 'o jsval \<Rightarrow> exn + int)
    \<Rightarrow> (string \<rightharpoonup> string) \<Rightarrow> string \<times> (int \<Rightarrow> bool) \<Rightarrow> ('o, 'clk) tables \<Rightarrow> ('o, 'clk) tables" where
  "add_comparison toStr config cmp msgs entry tabs =
     (case (entry, tabs) of ((rl, chk), (messages, rules)) \<Rightarrow>
        (messages((prefix_of config @ ''.'' @ rl) := msgs rl),
         rules(rl \<mapsto> comparison_rule toStr config cmp rl chk)))"

text \<open>\<open>Object.assign(target, source)\<close> on tables: the source's entries win.\<close>

definition assign :: "(string \<rightharpoonup> 'a) \<Rightarrow> (string \<times> 'a) list option \<Rightarrow> (string \<rightharpoonup> 'a)" where
  "assign target source =
     (case source of None \<Rightarrow> target | Some kvs \<Rightarrow> target ++ map_of kvs)"

definition build_tables ::
  "('o \<Rightarrow> string) \<Rightarrow> ('o, 'clk) TypeConfig \<Rightarrow> ('o, 'clk) tables" where
  "build_tables toStr config =
     (let messages0 = [(prefix_of config @ ''.base'') \<mapsto> baseMessage config];
          rules0 = Map.empty;
          (messages1, rules1) =
            (case compare config of
               None \<Rightarrow> (messages0, rules0)
             | Some cmp \<Rightarrow>
                 (let msgs = assign (map_of DEFAULT_COMPARE) (compareMessages config);
                      (m, r) = fold (add_comparison toStr config cmp msgs) CHECKS (messages0, rules0)
                  in (m, r(''gte'' \<mapsto> alias_rule ''min'', ''lte'' \<mapsto> alias_rule ''max'')))
            )
      in (assign messages1 (extraMessages config), assign rules1 (extraRules config)))"

text \<open>
  The coerce step. The test \<open>typeof value !== "string"\<close> is the case distinction on
  the value not being a string. The \<open>try\<close>/\<open>catch\<close> turns every exception of
  \<open>parse\<close> into the base error. The result type leaves room for an exception escaping.
\<close>

definition coerce_step :: "('o, 'clk) TypeConfig \<Rightarrow> 'o jsval \<Rightarrow> exn + 'o step_result" where
  "coerce_step config v =
     (if loose_eq_null v \<or> check config v then Inr \<lparr> value_of = Some v, errors_of = None \<rparr>
      else (case v of
              JString s \<Rightarrow>
                (case parse config s of
                   Inr parsed \<Rightarrow> Inr \<lparr> value_of = Some parsed, errors_of = None \<rparr>
                 | Inl e \<Rightarrow> Inr \<lparr> value_of = None,
                                  errors_of = Some (helpers_error (prefix_of config @ ''.base'') []) \<rparr>)
            | _ \<Rightarrow> Inr \<lparr> value_of = None,
                         errors_of = Some (helpers_error (prefix_of config @ ''.base'') []) \<rparr>))"

text \<open>The validate step: the defensive second membership check.\<close>

definition validate_step :: "('o, 'clk) TypeConfig \<Rightarrow> 'o jsval \<Rightarrow> exn + 'o step_result" where
  "validate_step config v =
     (if \<not> check config v
      then Inr \<lparr> value_of = Some v,
                 errors_of = Some (helpers_error (prefix_of config @ ''.base'') []) \<rparr>
      else Inr \<lparr> value_of = Some v, errors_of = None \<rparr>)"

text \<open>
  The extension definition the factory returns. The factory's \<open>joi\<close> argument is used
  for \<open>base: joi.any()\<close> alone, the unconstrained base schema.
\<close>

datatype base_schema = JoiAny

record ('o, 'clk) extension =
  type_name :: string
  base :: base_schema
  messages :: "string \<rightharpoonup> string"
  coerce :: "'o jsval \<Rightarrow> exn + 'o step_result"
  validate_base :: "'o jsval \<Rightarrow> exn + 'o step_result"
  rules :: "string \<rightharpoonup> ('o, 'clk) rule"

definition makeExtension ::
  "('o \<Rightarrow> string) \<Rightarrow> ('o, 'clk) TypeConfig \<Rightarrow> ('o, 'clk) extension" where
  "makeExtension toStr config =
     \<lparr> type_name = name config,
       base = JoiAny,
       messages = fst (build_tables toStr config),
       coerce = coerce_step config,
       validate_base = validate_step config,
       rules = snd (build_tables toStr config) \<rparr>"

section \<open>Types\<close>

text \<open>
  The date/time library the configs call, \<open>globalThis.Temporal\<close>, is taken as a
  parameter: the eight classes by \<open>kind\<close>, and for each operation the source uses, one
  field. \<open>instanceof\<close> is \<open>v instanceof Temporal.K\<close>, \<open>from_string\<close> is
  \<open>Temporal.K.from(text)\<close> (which throws on text it rejects), \<open>compare_static\<close> is
  \<open>Temporal.K.compare(a, b)\<close>, \<open>Duration_compare\<close> is
  \<open>Temporal.Duration.compare(a, b, { relativeTo })\<close>, the three \<open>Now_\<close> fields read
  the clock, \<open>timeZoneId\<close> and \<open>sign\<close> are the two properties the extra rules read,
  and \<open>toString\<close> is the objects' \<open>toString()\<close>. A property is what an object has
  under that name: \<open>timeZoneId\<close> any value, undefined when the object has none;
  \<open>sign\<close> a number, or \<open>None\<close> when the object has none.
\<close>

datatype kind =
    PlainDate | PlainTime | PlainDateTime | ZonedDateTime
  | Instant | Duration | PlainYearMonth | PlainMonthDay

record ('o, 'clk) Temporal =
  instanceof :: "'o jsval \<Rightarrow> kind \<Rightarrow> bool"
  from_string :: "kind \<Rightarrow> string \<Rightarrow> exn + 'o jsval"
  compare_static :: "kind \<Rightarrow> 'o jsval \<Rightarrow> 'o jsval \<Rightarrow> exn + int"
  Duration_compare :: "'o jsval \<Rightarrow> 'o jsval \<Rightarrow> 'o jsval \<Rightarrow> exn + int"
  Now_plainDateISO :: "'clk \<Rightarrow> 'o jsval"
  Now_plainTimeISO :: "'clk \<Rightarrow> 'o jsval"
  Now_plainDateTimeISO :: "'clk \<Rightarrow> 'o jsval"
  timeZoneId :: "'o \<Rightarrow> 'o jsval"
  sign :: "'o \<Rightarrow> int option"
  toString :: "'o \<Rightarrow> string"

definition plainDate_config :: "('o, 'clk) Temporal \<Rightarrow> ('o, 'clk) TypeConfig" where
  "plainDate_config T =
     \<lparr> name = ''plainDate'',
       check = (\<lambda>v. instanceof T v PlainDate),
       parse = (\<lambda>v. from_string T PlainDate v),
       baseMessage = ''{{#label}} must be a valid ISO 8601 date string or Temporal.PlainDate'',
       compare = Some (\<lambda>clk a b. compare_static T PlainDate a b),
       compareMessages = None,
       now = Some (\<lambda>clk. Now_plainDateISO T clk),
       extraMessages = None,
       extraRules = None \<rparr>"

definition plainTime_config :: "('o, 'clk) Temporal \<Rightarrow> ('o, 'clk) TypeConfig" where
  "plainTime_config T =
     \<lparr> name = ''plainTime'',
       check = (\<lambda>v. instanceof T v PlainTime),
       parse = (\<lambda>v. from_string T PlainTime v),
       baseMessage = ''{{#label}} must be a valid ISO 8601 time string or Temporal.PlainTime'',
       compare = Some (\<lambda>clk a b. compare_static T PlainTime a b),
       compareMessages = None,
       now = Some (\<lambda>clk. Now_plainTimeISO T clk),
       extraMessages = None,
       extraRules = None \<rparr>"

definition plainDateTime_config :: "('o, 'clk) Temporal \<Rightarrow> ('o, 'clk) TypeConfig" where
  "plainDateTime_config T =
     \<lparr> name = ''plainDateTime'',
       check = (\<lambda>v. instanceof T v PlainDateTime),
       parse = (\<lambda>v. from_string T PlainDateTime v),
       baseMessage =
         ''{{#label}} must be a valid ISO 8601 date-time string or Temporal.PlainDateTime'',
       compare = Some (\<lambda>clk a b. compare_static T PlainDateTime a b),
       compareMessages = None,
       now = Some (\<lambda>clk. Now_plainDateTimeISO T clk),
       extraMessages = None,
       extraRules = None \<rparr>"

text \<open>
  Reading a property \<open>value.p\<close>, as the validators of the extra rules do without a
  check of their own: on null and undefined it throws a TypeError; on an object it is
  what the object has under the name; a string, a number and a boolean have no property of
  the two names read here, and the result is \<open>absent\<close>.
\<close>

definition read_property :: "('o \<Rightarrow> 'a) \<Rightarrow> 'a \<Rightarrow> 'o jsval \<Rightarrow> exn + 'a" where
  "read_property getter absent v =
     (case v of
        JUndefined \<Rightarrow> Inl (TypeError ''Cannot read properties of undefined'')
      | JNull \<Rightarrow> Inl (TypeError ''Cannot read properties of null'')
      | JObject x \<Rightarrow> Inr (getter x)
      | _ \<Rightarrow> Inr absent)"

definition timezone_validate ::
  "('o, 'clk) Temporal \<Rightarrow> 'clk \<Rightarrow> 'o jsval \<Rightarrow> (string \<times> 'o jsval) list \<Rightarrow> exn + 'o rule_result" where
  "timezone_validate T clk v as =
     (let tz = named as ''tz'' in
      case read_property (timeZoneId T) JUndefined v of
        Inl e \<Rightarrow> Inl e
      | Inr zone \<Rightarrow>
          if zone \<noteq> tz
          then Inr (Report (helpers_error ''temporal.zonedDateTime.timezone'' [(''timezone'', tz)]))
          else Inr (Value v))"

definition zonedDateTime_config :: "('o, 'clk) Temporal \<Rightarrow> ('o, 'clk) TypeConfig" where
  "zonedDateTime_config T =
     \<lparr> name = ''zonedDateTime'',
       check = (\<lambda>v. instanceof T v ZonedDateTime),
       parse = (\<lambda>v. from_string T ZonedDateTime v),
       baseMessage =
         ''{{#label}} must be a valid ISO 8601 date-time string with timezone or Temporal.ZonedDateTime'',
       compare = Some (\<lambda>clk a b. compare_static T ZonedDateTime a b),
       compareMessages = None,
       now = None,
       extraMessages = Some
         [(''temporal.zonedDateTime.timezone'', ''{{#label}} must be in timezone {#timezone}'')],
       extraRules = Some
         [(''timezone'',
           \<lparr> method_of = (\<lambda>as. AddRule ''timezone'' [(''tz'', positional as 0)]),
             args = [],
             validate = Some (timezone_validate T) \<rparr>)] \<rparr>"

definition instant_config :: "('o, 'clk) Temporal \<Rightarrow> ('o, 'clk) TypeConfig" where
  "instant_config T =
     \<lparr> name = ''instant'',
       check = (\<lambda>v. instanceof T v Instant),
       parse = (\<lambda>v. from_string T Instant v),
       baseMessage = ''{{#label}} must be a valid ISO 8601 string with offset or Temporal.Instant'',
       compare = Some (\<lambda>clk a b. compare_static T Instant a b),
       compareMessages = None,
       now = None,
       extraMessages = None,
       extraRules = None \<rparr>"

text \<open>
  The three sign rules compare \<open>value.sign\<close> with zero. Against an undefined
  \<open>sign\<close> (\<open>None\<close>) each of \<open><= 0\<close>, \<open>>= 0\<close> and \<open>=== 0\<close> is false.
\<close>

definition positive_validate ::
  "('o, 'clk) Temporal \<Rightarrow> 'clk \<Rightarrow> 'o jsval \<Rightarrow> (string \<times> 'o jsval) list \<Rightarrow> exn + 'o rule_result" where
  "positive_validate T clk v as =
     (case read_property (sign T) None v of
        Inl e \<Rightarrow> Inl e
      | Inr sg \<Rightarrow>
          if (case sg of Some n \<Rightarrow> n \<le> 0 | None \<Rightarrow> False)
          then Inr (Report (helpers_error ''temporal.duration.positive'' []))
          else Inr (Value v))"

definition negative_validate ::
  "('o, 'clk) Temporal \<Rightarrow> 'clk \<Rightarrow> 'o jsval \<Rightarrow> (string \<times> 'o jsval) list \<Rightarrow> exn + 'o rule_result" where
  "negative_validate T clk v as =
     (case read_property (sign T) None v of
        Inl e \<Rightarrow> Inl e
      | Inr sg \<Rightarrow>
          if (case sg of Some n \<Rightarrow> n \<ge> 0 | None \<Rightarrow> False)
          then Inr (Report (helpers_error ''temporal.duration.negative'' []))
          else Inr (Value v))"

definition nonzero_validate ::
  "('o, 'clk) Temporal \<Rightarrow> 'clk \<Rightarrow> 'o jsval \<Rightarrow> (string \<times> 'o jsval) list \<Rightarrow> exn + 'o rule_result" where
  "nonzero_validate T clk v as =
     (case read_property (sign T) None v of
        Inl e \<Rightarrow> Inl e
      | Inr sg \<Rightarrow>
          if (case sg of Some n \<Rightarrow> n = 0 | None \<Rightarrow> False)
          then Inr (Report (helpers_error ''temporal.duration.nonzero'' []))
          else Inr (Value v))"

definition duration_config :: "('o, 'clk) Temporal \<Rightarrow> ('o, 'clk) TypeConfig" where
  "duration_config T =
     \<lparr> name = ''duration'',
       check = (\<lambda>v. instanceof T v Duration),
       parse = (\<lambda>v. from_string T Duration v),
       baseMessage = ''{{#label}} must be a valid ISO 8601 duration string or Temporal.Duration'',
       compare = Some (\<lambda>clk a b. Duration_compare T a b (Now_plainDateISO T clk)),
       compareMessages = Some
         [(''min'', ''{{#label}} must be at least {#limit}''),
          (''max'', ''{{#label}} must be at most {#limit}''),
          (''gt'', ''{{#label}} must be more than {#limit}''),
          (''lt'', ''{{#label}} must be less than {#limit}'')],
       now = None,
       extraMessages = Some
         [(''temporal.duration.positive'', ''{{#label}} must be a positive duration''),
          (''temporal.duration.negative'', ''{{#label}} must be a negative duration''),
          (''temporal.duration.nonzero'', ''{{#label}} must not be zero'')],
       extraRules = Some
         [(''positive'',
           \<lparr> method_of = (\<lambda>as. AddRule ''positive'' []), args = [],
             validate = Some (positive_validate T) \<rparr>),
          (''negative'',
           \<lparr> method_of = (\<lambda>as. AddRule ''negative'' []), args = [],
             validate = Some (negative_validate T) \<rparr>),
          (''nonzero'',
           \<lparr> method_of = (\<lambda>as. AddRule ''nonzero'' []), args = [],
             validate = Some (nonzero_validate T) \<rparr>)] \<rparr>"

definition plainYearMonth_config :: "('o, 'clk) Temporal \<Rightarrow> ('o, 'clk) TypeConfig" where
  "plainYearMonth_config T =
     \<lparr> name = ''plainYearMonth'',
       check = (\<lambda>v. instanceof T v PlainYearMonth),
       parse = (\<lambda>v. from_string T PlainYearMonth v),
       baseMessage =
         ''{{#label}} must be a valid ISO 8601 year-month string or Temporal.PlainYearMonth'',
       compare = Some (\<lambda>clk a b. compare_static T PlainYearMonth a b),
       compareMessages = None,
       now = None,
       extraMessages = None,
       extraRules = None \<rparr>"

definition plainMonthDay_config :: "('o, 'clk) Temporal \<Rightarrow> ('o, 'clk) TypeConfig" where
  "plainMonthDay_config T =
     \<lparr> name = ''plainMonthDay'',
       check = (\<lambda>v. instanceof T v PlainMonthDay),
       parse = (\<lambda>v. from_string T PlainMonthDay v),
       baseMessage =
         ''{{#label}} must be a valid ISO 8601 month-day string or Temporal.PlainMonthDay'',
       compare = None,
       compareMessages = None,
       now = None,
       extraMessages = None,
       extraRules = None \<rparr>"

definition configs :: "('o, 'clk) Temporal \<Rightarrow> ('o, 'clk) TypeConfig list" where
  "configs T =
     [plainDate_config T, plainTime_config T, plainDateTime_config T, zonedDateTime_config T,
      instant_config T, duration_config T, plainYearMonth_config T, plainMonthDay_config T]"

definition extensions :: "('o, 'clk) Temporal \<Rightarrow> ('o, 'clk) extension list" where
  "extensions T = map (makeExtension (toString T)) (configs T)"

text \<open>
  Loading the module: the availability check comes first and throws when
  \<open>globalThis.Temporal\<close> is undefined (\<open>None\<close>); otherwise the module's default export
  is the list of extensions.
\<close>

definition load_module :: "('o, 'clk) Temporal option \<Rightarrow> exn + ('o, 'clk) extension list" where
  "load_module global_Temporal =
     (case global_Temporal of
        None \<Rightarrow> Inl (Error (''joi-temporal requires the Temporal API. '' @
          ''Use a supported runtime (Node 22+ with --harmony-temporal, Chrome 144+, Firefox 139+) '' @
          ''or install a polyfill (temporal-polyfill, @js-temporal/polyfill).''))
      | Some T \<Rightarrow> Inr (extensions T))"

section \<open>The host engine\<close>

text \<open>
  Modelled from the spec: the host schema engine (Joi) is an external collaborator and is
  not part of the source. What follows is the contract the specification gives for it
  (sections 2, 4.2 and 6): a rule is attached by calling its method, at which time the
  host runs the rule's argument assertions and rejects a failing argument as a
  configuration error; a compiled schema is the list of attached rules with their literal
  arguments; \<open>validate()\<close> runs the coerce step, then the validate step, then the
  attached rules in order, and stops at the first error. The rule arguments of this model
  are literal values. An argument declared \<open>ref\<close> may also be a reference to another
  field, which the host does not assert when the rule is attached but resolves, and then
  asserts, at each validation; references, presence flags and message rendering are the
  host's own business and are left out.
\<close>

type_synonym 'o attached = "string \<times> (string \<times> 'o jsval) list"

definition failed_assert :: "'o arg_spec list \<Rightarrow> (string \<times> 'o jsval) list \<Rightarrow> 'o arg_spec option" where
  "failed_assert specs as = find (\<lambda>sp. \<not> assert sp (named as (arg_name sp))) specs"

definition add_rule ::
  "('o, 'clk) extension \<Rightarrow> string \<Rightarrow> (string \<times> 'o jsval) list \<Rightarrow> exn + 'o attached" where
  "add_rule ext rl as =
     (case rules ext rl of
        None \<Rightarrow> Inl (Error ''Unknown rule'')
      | Some r \<Rightarrow>
          (case failed_assert (args r) as of
             Some sp \<Rightarrow> Inl (Error (arg_name sp @ '' '' @ message sp))
           | None \<Rightarrow> Inr (rl, as)))"

text \<open>
  Calling a schema method \<open>m\<close> with positional arguments. The first argument is the
  remaining call depth: a method that keeps calling methods exhausts the call stack.
\<close>

fun invoke ::
  "nat \<Rightarrow> ('o, 'clk) extension \<Rightarrow> string \<Rightarrow> 'o jsval list \<Rightarrow> exn + 'o attached" where
  "invoke 0 ext m as = Inl (RangeError ''Maximum call stack size exceeded'')"
| "invoke (Suc depth) ext m as =
     (case rules ext m of
        None \<Rightarrow> Inl (TypeError (m @ '' is not a function''))
      | Some r \<Rightarrow>
          (case method_of r as of
             AddRule rl named_args \<Rightarrow> add_rule ext rl named_args
           | CallMethod m' as' \<Rightarrow> invoke depth ext m' as'))"

datatype 'o validation = Passed "'o jsval" | Failed "'o report"

fun run_rules ::
  "'clk \<Rightarrow> ('o, 'clk) extension \<Rightarrow> 'o attached list \<Rightarrow> 'o jsval \<Rightarrow> exn + 'o validation" where
  "run_rules clk ext [] v = Inr (Passed v)"
| "run_rules clk ext ((rl, as) # rest) v =
     (case rules ext rl of
        None \<Rightarrow> Inl (Error ''Unknown rule'')
      | Some r \<Rightarrow>
          (case validate r of
             None \<Rightarrow> run_rules clk ext rest v
           | Some f \<Rightarrow>
               (case f clk v as of
                  Inl e \<Rightarrow> Inl e
                | Inr (Report err) \<Rightarrow> Inr (Failed err)
                | Inr (Value v') \<Rightarrow> run_rules clk ext rest v')))"

definition schema_validate ::
  "'clk \<Rightarrow> ('o, 'clk) extension \<Rightarrow> 'o attached list \<Rightarrow> 'o jsval \<Rightarrow> exn + 'o validation" where
  "schema_validate clk ext attached_rules v =
     (case coerce ext v of
        Inl e \<Rightarrow> Inl e
      | Inr c \<Rightarrow>
          (case errors_of c of
             Some err \<Rightarrow> Inr (Failed err)
           | None \<Rightarrow>
               (let v1 = (case value_of c of Some x \<Rightarrow> x | None \<Rightarrow> v) in
                if v1 = JUndefined then Inr (Passed v1)
                else
                  (case validate_base ext v1 of
                     Inl e \<Rightarrow> Inl e
                   | Inr b \<Rightarrow>
                       (case errors_of b of
                          Some err \<Rightarrow> Inr (Failed err)
                        | None \<Rightarrow>
                            run_rules clk ext attached_rules
                              (case value_of b of Some x \<Rightarrow> x | None \<Rightarrow> v1))))))"

section \<open>A reference instance of the date/time library\<close>

text \<open>
  Modelled from the spec: the date/time value library (Temporal) is an external
  collaborator and is not part of the source. This instance gives the behaviour the
  specification names for it (sections 1, 4.4, 6, 7 and 8) on a fragment of its input
  grammar: texts in the plain extended ISO 8601 forms, with four-digit years, whole
  seconds, the ISO calendar, and time zones that are UTC or a fixed offset. A text
  outside the fragment is rejected; calendar overflow and leap years are checked;
  an instant needs the UTC marker and a zoned date-time its bracketed zone. It serves to
  run the extensions on concrete inputs.
\<close>

datatype tobj =
    DateObj int int int
  | TimeObj int int int
  | DateTimeObj int int int int int int
  | ZonedObj int int int int int int int string
  | InstantObj int int int int int int
  | DurationObj int int int int int int int
  | YearMonthObj int int
  | MonthDayObj int int
  | PlainObject

text \<open>
  \<open>ZonedObj\<close> holds the wall-clock fields, the offset from UTC in minutes and the zone
  identifier; \<open>InstantObj\<close> the fields in UTC; \<open>DurationObj\<close> years, months, weeks,
  days, hours, minutes and seconds; \<open>PlainObject\<close> stands for any other object.
\<close>

record clock =
  current_date :: "int \<times> int \<times> int"
  current_time :: "int \<times> int \<times> int"

fun kind_of :: "tobj \<Rightarrow> kind option" where
  "kind_of (DateObj y m d) = Some PlainDate"
| "kind_of (TimeObj h mi s) = Some PlainTime"
| "kind_of (DateTimeObj y m d h mi s) = Some PlainDateTime"
| "kind_of (ZonedObj y m d h mi s off z) = Some ZonedDateTime"
| "kind_of (InstantObj y m d h mi s) = Some Instant"
| "kind_of (DurationObj y m w d h mi s) = Some Duration"
| "kind_of (YearMonthObj y m) = Some PlainYearMonth"
| "kind_of (MonthDayObj m d) = Some PlainMonthDay"
| "kind_of PlainObject = None"

fun ref_instanceof :: "tobj jsval \<Rightarrow> kind \<Rightarrow> bool" where
  "ref_instanceof (JObject x) k = (kind_of x = Some k)"
| "ref_instanceof v k = False"

subsection \<open>Calendar arithmetic\<close>

definition is_leap :: "int \<Rightarrow> bool" where
  "is_leap y = (y mod 4 = 0 \<and> (y mod 100 \<noteq> 0 \<or> y mod 400 = 0))"

definition days_in_month :: "int \<Rightarrow> int \<Rightarrow> int" where
  "days_in_month y m =
     (if m = 2 then (if is_leap y then 29 else 28)
      else if m = 4 \<or> m = 6 \<or> m = 9 \<or> m = 11 then 30 else 31)"

definition valid_date :: "int \<Rightarrow> int \<Rightarrow> int \<Rightarrow> bool" where
  "valid_date y m d = (1 \<le> m \<and> m \<le> 12 \<and> 1 \<le> d \<and> d \<le> days_in_month y m)"

definition valid_time :: "int \<Rightarrow> int \<Rightarrow> int \<Rightarrow> bool" where
  "valid_time h mi s = (0 \<le> h \<and> h < 24 \<and> 0 \<le> mi \<and> mi < 60 \<and> 0 \<le> s \<and> s < 60)"

text \<open>Days since 1970-01-01 of a date of the proleptic Gregorian calendar.\<close>

definition epoch_days :: "int \<Rightarrow> int \<Rightarrow> int \<Rightarrow> int" where
  "epoch_days y m d =
     (let y' = (if m \<le> 2 then y - 1 else y);
          era = y' div 400;
          yoe = y' - era * 400;
          doy = (153 * (if m > 2 then m - 3 else m + 9) + 2) div 5 + d - 1;
          doe = yoe * 365 + yoe div 4 - yoe div 100 + doy
      in era * 146097 + doe - 719468)"

text \<open>
  Adding years and months to a date, the day constrained to the length of the month
  reached.
\<close>

definition add_years_months :: "int \<times> int \<times> int \<Rightarrow> int \<Rightarrow> int \<Rightarrow> int \<times> int \<times> int" where
  "add_years_months date years months =
     (case date of (y, m, d) \<Rightarrow>
        (let total = (y + years) * 12 + (m - 1) + months;
             y' = total div 12;
             m' = total mod 12 + 1
         in (y', m', min d (days_in_month y' m'))))"

subsection \<open>Reading text\<close>

definition digit_value :: "char \<Rightarrow> int option" where
  "digit_value c =
     (let n = (of_char c :: nat) in if 48 \<le> n \<and> n \<le> 57 then Some (int n - 48) else None)"

fun read_digits :: "nat \<Rightarrow> int \<Rightarrow> string \<Rightarrow> (int \<times> string) option" where
  "read_digits 0 acc s = Some (acc, s)"
| "read_digits (Suc n) acc [] = None"
| "read_digits (Suc n) acc (c # s) =
     (case digit_value c of None \<Rightarrow> None | Some v \<Rightarrow> read_digits n (acc * 10 + v) s)"

datatype token = Digits nat | Lit char

fun read_fmt :: "token list \<Rightarrow> string \<Rightarrow> (int list \<times> string) option" where
  "read_fmt [] s = Some ([], s)"
| "read_fmt (Lit c # ts) [] = None"
| "read_fmt (Lit c # ts) (x # s) = (if x = c then read_fmt ts s else None)"
| "read_fmt (Digits n # ts) s =
     (case read_digits n 0 s of
        None \<Rightarrow> None
      | Some (v, rest) \<Rightarrow>
          (case read_fmt ts rest of None \<Rightarrow> None | Some (vs, rest') \<Rightarrow> Some (v # vs, rest')))"

definition date_fmt :: "token list" where
  "date_fmt = [Digits 4, Lit CHR ''-'', Digits 2, Lit CHR ''-'', Digits 2]"

definition time_fmt :: "token list" where
  "time_fmt = [Digits 2, Lit CHR '':'', Digits 2, Lit CHR '':'', Digits 2]"

definition short_time_fmt :: "token list" where
  "short_time_fmt = [Digits 2, Lit CHR '':'', Digits 2]"

definition read_date :: "string \<Rightarrow> ((int \<times> int \<times> int) \<times> string) option" where
  "read_date s =
     (case read_fmt date_fmt s of
        Some ([y, m, d], rest) \<Rightarrow> if valid_date y m d then Some ((y, m, d), rest) else None
      | _ \<Rightarrow> None)"

definition read_time :: "string \<Rightarrow> ((int \<times> int \<times> int) \<times> string) option" where
  "read_time s =
     (case read_fmt time_fmt s of
        Some ([h, mi, se], rest) \<Rightarrow> if valid_time h mi se then Some ((h, mi, se), rest) else None
      | _ \<Rightarrow>
        (case read_fmt short_time_fmt s of
           Some ([h, mi], rest) \<Rightarrow> if valid_time h mi 0 then Some ((h, mi, 0), rest) else None
         | _ \<Rightarrow> None))"

definition parse_date :: "string \<Rightarrow> tobj option" where
  "parse_date s =
     (case read_date s of Some ((y, m, d), []) \<Rightarrow> Some (DateObj y m d) | _ \<Rightarrow> None)"

definition parse_time :: "string \<Rightarrow> tobj option" where
  "parse_time s =
     (case read_time s of Some ((h, mi, se), []) \<Rightarrow> Some (TimeObj h mi se) | _ \<Rightarrow> None)"

definition parse_datetime :: "string \<Rightarrow> tobj option" where
  "parse_datetime s =
     (case read_date s of
        Some ((y, m, d), []) \<Rightarrow> Some (DateTimeObj y m d 0 0 0)
      | Some ((y, m, d), c # rest) \<Rightarrow>
          (if c = CHR ''T'' then
             (case read_time rest of
                Some ((h, mi, se), []) \<Rightarrow> Some (DateTimeObj y m d h mi se)
              | _ \<Rightarrow> None)
           else None)
      | None \<Rightarrow> None)"

definition parse_instant :: "string \<Rightarrow> tobj option" where
  "parse_instant s =
     (case read_date s of
        Some ((y, m, d), c # rest) \<Rightarrow>
          (if c = CHR ''T'' then
             (case read_time rest of
                Some ((h, mi, se), [z]) \<Rightarrow>
                  if z = CHR ''Z'' then Some (InstantObj y m d h mi se) else None
              | _ \<Rightarrow> None)
           else None)
      | _ \<Rightarrow> None)"

text \<open>An offset \<open>+HH:MM\<close> or \<open>-HH:MM\<close>, in minutes.\<close>

definition read_offset :: "string \<Rightarrow> (int \<times> string) option" where
  "read_offset s =
     (case s of
        [] \<Rightarrow> None
      | c # rest \<Rightarrow>
          (if c = CHR ''+'' \<or> c = CHR ''-'' then
             (case read_fmt short_time_fmt rest of
                Some ([h, mi], rest') \<Rightarrow>
                  if valid_time h mi 0
                  then Some ((if c = CHR ''-'' then - 1 else 1) * (h * 60 + mi), rest')
                  else None
              | _ \<Rightarrow> None)
           else None))"

definition parse_zoned :: "string \<Rightarrow> tobj option" where
  "parse_zoned s =
     (case read_date s of
        Some ((y, m, d), c # rest) \<Rightarrow>
          (if c = CHR ''T'' then
             (case read_time rest of
                Some ((h, mi, se), rest1) \<Rightarrow>
                  (case read_offset rest1 of
                     Some (off, b # rest2) \<Rightarrow>
                       (let zone = butlast rest2 in
                        if b = CHR ''['' \<and> rest2 \<noteq> [] \<and> last rest2 = CHR '']'' \<and>
                           ((zone = ''UTC'' \<and> off = 0) \<or> read_offset zone = Some (off, []))
                        then Some (ZonedObj y m d h mi se off zone) else None)
                   | _ \<Rightarrow> None)
              | _ \<Rightarrow> None)
           else None)
      | _ \<Rightarrow> None)"

definition parse_yearmonth :: "string \<Rightarrow> tobj option" where
  "parse_yearmonth s =
     (case read_fmt [Digits 4, Lit CHR ''-'', Digits 2] s of
        Some ([y, m], []) \<Rightarrow> if 1 \<le> m \<and> m \<le> 12 then Some (YearMonthObj y m) else None
      | _ \<Rightarrow> None)"

text \<open>A month-day is checked against a leap year, so that 02-29 is a month-day.\<close>

definition parse_monthday :: "string \<Rightarrow> tobj option" where
  "parse_monthday s =
     (case read_fmt [Digits 2, Lit CHR ''-'', Digits 2] s of
        Some ([m, d], []) \<Rightarrow> if valid_date 1972 m d then Some (MonthDayObj m d) else None
      | _ \<Rightarrow> None)"

text \<open>
  One component of a duration: a run of digits followed by the designator. When the
  text does not start with such a component it is left as it is.
\<close>

fun read_number :: "int option \<Rightarrow> string \<Rightarrow> int option \<times> string" where
  "read_number acc [] = (acc, [])"
| "read_number acc (c # s) =
     (case digit_value c of
        None \<Rightarrow> (acc, c # s)
      | Some v \<Rightarrow> read_number (Some ((case acc of None \<Rightarrow> 0 | Some a \<Rightarrow> a) * 10 + v)) s)"

definition component :: "char \<Rightarrow> string \<Rightarrow> int option \<times> string" where
  "component designator s =
     (case read_number None s of
        (Some n, c # rest) \<Rightarrow> if c = designator then (Some n, rest) else (None, s)
      | _ \<Rightarrow> (None, s))"

definition amount :: "int option \<Rightarrow> int" where
  "amount x = (case x of None \<Rightarrow> 0 | Some n \<Rightarrow> n)"

definition parse_duration :: "string \<Rightarrow> tobj option" where
  "parse_duration s =
     (let (sg, s0) = (case s of
                        c # r \<Rightarrow> if c = CHR ''-'' then (- 1, r)
                                 else if c = CHR ''+'' then (1, r) else (1, s)
                      | [] \<Rightarrow> (1 :: int, s))
      in case s0 of
           [] \<Rightarrow> None
         | p # s1 \<Rightarrow>
             if p \<noteq> CHR ''P'' then None
             else
               (let (y, s2) = component CHR ''Y'' s1;
                    (mo, s3) = component CHR ''M'' s2;
                    (w, s4) = component CHR ''W'' s3;
                    (d, s5) = component CHR ''D'' s4
                in case s5 of
                     [] \<Rightarrow>
                       if y = None \<and> mo = None \<and> w = None \<and> d = None then None
                       else Some (DurationObj (sg * amount y) (sg * amount mo) (sg * amount w)
                                    (sg * amount d) 0 0 0)
                   | t # s6 \<Rightarrow>
                       if t \<noteq> CHR ''T'' then None
                       else
                         (let (h, s7) = component CHR ''H'' s6;
                              (mi, s8) = component CHR ''M'' s7;
                              (se, s9) = component CHR ''S'' s8
                          in if s9 \<noteq> [] \<or> (h = None \<and> mi = None \<and> se = None) then None
                             else Some (DurationObj (sg * amount y) (sg * amount mo)
                                          (sg * amount w) (sg * amount d)
                                          (sg * amount h) (sg * amount mi) (sg * amount se)))))"

fun parser_of :: "kind \<Rightarrow> string \<Rightarrow> tobj option" where
  "parser_of PlainDate = parse_date"
| "parser_of PlainTime = parse_time"
| "parser_of PlainDateTime = parse_datetime"
| "parser_of ZonedDateTime = parse_zoned"
| "parser_of Instant = parse_instant"
| "parser_of Duration = parse_duration"
| "parser_of PlainYearMonth = parse_yearmonth"
| "parser_of PlainMonthDay = parse_monthday"

definition ref_from :: "kind \<Rightarrow> string \<Rightarrow> exn + tobj jsval" where
  "ref_from k s =
     (case parser_of k s of
        None \<Rightarrow> Inl (RangeError (''Cannot parse: '' @ s))
      | Some x \<Rightarrow> Inr (JObject x))"

subsection \<open>Comparing\<close>

fun compare_fields :: "int list \<Rightarrow> int list \<Rightarrow> int" where
  "compare_fields (x # xs) (y # ys) =
     (if x < y then - 1 else if x > y then 1 else compare_fields xs ys)"
| "compare_fields xs ys = 0"

definition epoch_seconds :: "int \<Rightarrow> int \<Rightarrow> int \<Rightarrow> int \<Rightarrow> int \<Rightarrow> int \<Rightarrow> int \<Rightarrow> int" where
  "epoch_seconds y m d h mi s off =
     epoch_days y m d * 86400 + h * 3600 + mi * 60 + s - off * 60"

text \<open>
  The fields by which the values of a kind are ordered: the calendar and clock fields in
  order of significance, and for a zoned date-time the instant it denotes.
\<close>

fun sort_key :: "tobj \<Rightarrow> int list" where
  "sort_key (DateObj y m d) = [y, m, d]"
| "sort_key (TimeObj h mi s) = [h, mi, s]"
| "sort_key (DateTimeObj y m d h mi s) = [y, m, d, h, mi, s]"
| "sort_key (ZonedObj y m d h mi s off z) = [epoch_seconds y m d h mi s off]"
| "sort_key (InstantObj y m d h mi s) = [y, m, d, h, mi, s]"
| "sort_key (YearMonthObj y m) = [y, m]"
| "sort_key x = []"

text \<open>
  The static functions convert their arguments first: an instance of the kind is taken
  as it is, a text is parsed, anything else is refused.
\<close>

definition to_kind :: "kind \<Rightarrow> tobj jsval \<Rightarrow> exn + tobj" where
  "to_kind k v =
     (case v of
        JString s \<Rightarrow>
          (case parser_of k s of
             None \<Rightarrow> Inl (RangeError (''Cannot parse: '' @ s))
           | Some x \<Rightarrow> Inr x)
      | JObject x \<Rightarrow>
          if kind_of x = Some k then Inr x else Inl (TypeError ''wrong kind of object'')
      | _ \<Rightarrow> Inl (TypeError ''not a date/time value''))"

fun calendar_units :: "tobj \<Rightarrow> bool" where
  "calendar_units (DurationObj y m w d h mi s) = (y \<noteq> 0 \<or> m \<noteq> 0 \<or> w \<noteq> 0)"
| "calendar_units x = False"

fun exact_seconds :: "tobj \<Rightarrow> int" where
  "exact_seconds (DurationObj y m w d h mi s) = d * 86400 + h * 3600 + mi * 60 + s"
| "exact_seconds x = 0"

text \<open>
  The length of a duration that starts at a reference date: its years and months are
  added to the date and counted in days, a week is seven days.
\<close>

fun anchored_seconds :: "int \<times> int \<times> int \<Rightarrow> tobj \<Rightarrow> int" where
  "anchored_seconds (ry, rm, rd) (DurationObj y m w d h mi s) =
     (case add_years_months (ry, rm, rd) y m of
        (y', m', d') \<Rightarrow>
          (epoch_days y' m' d' - epoch_days ry rm rd + 7 * w) * 86400
            + exact_seconds (DurationObj y m w d h mi s))"
| "anchored_seconds r x = 0"

text \<open>
  Comparing two durations (specification, section 4.4): when either operand carries
  calendar units the comparison is anchored to the reference date; durations in fixed
  units alone are compared exactly, and no reference date is consulted.
\<close>

definition compare_durations :: "tobj \<Rightarrow> tobj \<Rightarrow> tobj jsval \<Rightarrow> exn + int" where
  "compare_durations x y relativeTo =
     (if x = y then Inr 0
      else if calendar_units x \<or> calendar_units y then
        (case relativeTo of
           JObject (DateObj ry rm rd) \<Rightarrow>
             Inr (sgn (anchored_seconds (ry, rm, rd) x - anchored_seconds (ry, rm, rd) y))
         | _ \<Rightarrow> Inl (RangeError ''a starting point is required for calendar units''))
      else Inr (sgn (exact_seconds x - exact_seconds y)))"

definition ref_duration_compare ::
  "tobj jsval \<Rightarrow> tobj jsval \<Rightarrow> tobj jsval \<Rightarrow> exn + int" where
  "ref_duration_compare a b relativeTo =
     (case to_kind Duration a of
        Inl e \<Rightarrow> Inl e
      | Inr x \<Rightarrow>
          (case to_kind Duration b of
             Inl e \<Rightarrow> Inl e
           | Inr y \<Rightarrow> compare_durations x y relativeTo))"

definition ref_compare :: "kind \<Rightarrow> tobj jsval \<Rightarrow> tobj jsval \<Rightarrow> exn + int" where
  "ref_compare k a b =
     (if k = PlainMonthDay then Inl (TypeError ''Temporal.PlainMonthDay.compare is not a function'')
      else if k = Duration then ref_duration_compare a b JUndefined
      else
        (case to_kind k a of
           Inl e \<Rightarrow> Inl e
         | Inr x \<Rightarrow>
             (case to_kind k b of
                Inl e \<Rightarrow> Inl e
              | Inr y \<Rightarrow> Inr (compare_fields (sort_key x) (sort_key y)))))"

subsection \<open>The clock and the properties\<close>

definition ref_now_date :: "clock \<Rightarrow> tobj jsval" where
  "ref_now_date clk = (case current_date clk of (y, m, d) \<Rightarrow> JObject (DateObj y m d))"

definition ref_now_time :: "clock \<Rightarrow> tobj jsval" where
  "ref_now_time clk = (case current_time clk of (h, mi, s) \<Rightarrow> JObject (TimeObj h mi s))"

definition ref_now_datetime :: "clock \<Rightarrow> tobj jsval" where
  "ref_now_datetime clk =
     (case (current_date clk, current_time clk) of
        ((y, m, d), (h, mi, s)) \<Rightarrow> JObject (DateTimeObj y m d h mi s))"

fun ref_timeZoneId :: "tobj \<Rightarrow> tobj jsval" where
  "ref_timeZoneId (ZonedObj y m d h mi s off z) = JString z"
| "ref_timeZoneId x = JUndefined"

fun first_sign :: "int list \<Rightarrow> int" where
  "first_sign [] = 0"
| "first_sign (x # xs) = (if x \<noteq> 0 then sgn x else first_sign xs)"

fun ref_sign :: "tobj \<Rightarrow> int option" where
  "ref_sign (DurationObj y m w d h mi s) = Some (first_sign [y, m, w, d, h, mi, s])"
| "ref_sign x = None"

subsection \<open>Canonical text\<close>

definition pad :: "nat \<Rightarrow> int \<Rightarrow> string" where
  "pad n i = (let s = show_nat (nat i) in replicate (n - length s) CHR ''0'' @ s)"

definition date_text :: "int \<Rightarrow> int \<Rightarrow> int \<Rightarrow> string" where
  "date_text y m d = pad 4 y @ ''-'' @ pad 2 m @ ''-'' @ pad 2 d"

definition time_text :: "int \<Rightarrow> int \<Rightarrow> int \<Rightarrow> string" where
  "time_text h mi s = pad 2 h @ '':'' @ pad 2 mi @ '':'' @ pad 2 s"

definition offset_text :: "int \<Rightarrow> string" where
  "offset_text off =
     (if off < 0 then ''-'' else ''+'') @ pad 2 (\<bar>off\<bar> div 60) @ '':'' @ pad 2 (\<bar>off\<bar> mod 60)"

definition part :: "int \<Rightarrow> char \<Rightarrow> string" where
  "part n designator = (if n = 0 then [] else show_nat (nat \<bar>n\<bar>) @ [designator])"

fun ref_toString :: "tobj \<Rightarrow> string" where
  "ref_toString (DateObj y m d) = date_text y m d"
| "ref_toString (TimeObj h mi s) = time_text h mi s"
| "ref_toString (DateTimeObj y m d h mi s) = date_text y m d @ ''T'' @ time_text h mi s"
| "ref_toString (ZonedObj y m d h mi s off z) =
     date_text y m d @ ''T'' @ time_text h mi s @ offset_text off @ ''['' @ z @ '']''"
| "ref_toString (InstantObj y m d h mi s) = date_text y m d @ ''T'' @ time_text h mi s @ ''Z''"
| "ref_toString (DurationObj y m w d h mi s) =
     (let date_part = part y CHR ''Y'' @ part m CHR ''M'' @ part w CHR ''W'' @ part d CHR ''D'';
          seconds_part =
            (if s \<noteq> 0 \<or> (y = 0 \<and> m = 0 \<and> w = 0 \<and> d = 0 \<and> h = 0 \<and> mi = 0)
             then show_nat (nat \<bar>s\<bar>) @ ''S'' else []);
          time_part = part h CHR ''H'' @ part mi CHR ''M'' @ seconds_part
      in (if first_sign [y, m, w, d, h, mi, s] < 0 then ''-'' else [])
           @ ''P'' @ date_part @ (if time_part = [] then [] else ''T'' @ time_part))"
| "ref_toString (YearMonthObj y m) = pad 4 y @ ''-'' @ pad 2 m"
| "ref_toString (MonthDayObj m d) = pad 2 m @ ''-'' @ pad 2 d"
| "ref_toString PlainObject = ''[object Object]''"

definition Tref :: "(tobj, clock) Temporal" where
  "Tref =
     \<lparr> instanceof = ref_instanceof,
       from_string = ref_from,
       compare_static = ref_compare,
       Duration_compare = ref_duration_compare,
       Now_plainDateISO = ref_now_date,
       Now_plainTimeISO = ref_now_time,
       Now_plainDateTimeISO = ref_now_datetime,
       timeZoneId = ref_timeZoneId,
       sign = ref_sign,
       toString = ref_toString \<rparr>"


section \<open>Vocabulary of the properties\<close>

text \<open>
  Calling the validator of rule \<open>rl\<close> of an extension, as the host does for an attached
  rule. Calling what is not there is a TypeError.
\<close>

definition call_validate ::
  "('o, 'clk) extension \<Rightarrow> string \<Rightarrow> 'clk \<Rightarrow> 'o jsval \<Rightarrow> (string \<times> 'o jsval) list
    \<Rightarrow> exn + 'o rule_result" where
  "call_validate ext rl clk v as =
     (case rules ext rl of
        None \<Rightarrow> Inl (TypeError ''Cannot read properties of undefined'')
      | Some r \<Rightarrow>
          (case validate r of
             None \<Rightarrow> Inl (TypeError ''validate is not a function'')
           | Some f \<Rightarrow> f clk v as))"

definition comparison_names :: "string list" where
  "comparison_names = [''min'', ''max'', ''gt'', ''lt'', ''gte'', ''lte'']"

text \<open>The rule table after the loop over \<open>CHECKS\<close> and the two aliases, written out.\<close>

definition generated_rules ::
  "('o \<Rightarrow> string) \<Rightarrow> ('o, 'clk) TypeConfig \<Rightarrow> ('clk \<Rightarrow> 'o jsval \<Rightarrow> 'o jsval \<Rightarrow> exn + int)
    \<Rightarrow> (string \<rightharpoonup> ('o, 'clk) rule)" where
  "generated_rules toStr config cmp =
     [''min'' \<mapsto> comparison_rule toStr config cmp ''min'' (\<lambda>c. c \<ge> 0),
      ''max'' \<mapsto> comparison_rule toStr config cmp ''max'' (\<lambda>c. c \<le> 0),
      ''gt'' \<mapsto> comparison_rule toStr config cmp ''gt'' (\<lambda>c. c > 0),
      ''lt'' \<mapsto> comparison_rule toStr config cmp ''lt'' (\<lambda>c. c < 0),
      ''gte'' \<mapsto> alias_rule ''min'',
      ''lte'' \<mapsto> alias_rule ''max'']"

text \<open>A config whose extra rules leave the six comparison names alone.\<close>

definition keeps_generated :: "('o, 'clk) TypeConfig \<Rightarrow> bool" where
  "keeps_generated config =
     (case extraRules config of
        None \<Rightarrow> True
      | Some kvs \<Rightarrow> list_all (\<lambda>rl. map_of kvs rl = None) comparison_names)"

text \<open>A duration instance without years and months.\<close>

fun fixed_units :: "tobj jsval \<Rightarrow> bool" where
  "fixed_units (JObject (DurationObj y m w d h mi s)) = (y = 0 \<and> m = 0)"
| "fixed_units v = False"

text \<open>
  The extensions over the reference library, and three clocks: two a day apart in a
  month of thirty days, one in a month of twenty-eight.
\<close>

definition ref_extension :: "(tobj, clock) TypeConfig \<Rightarrow> (tobj, clock) extension" where
  "ref_extension config = makeExtension (toString Tref) config"

definition clock_nov2 :: clock where
  "clock_nov2 = \<lparr> current_date = (2026, 11, 2), current_time = (9, 30, 0) \<rparr>"

definition clock_nov3 :: clock where
  "clock_nov3 = \<lparr> current_date = (2026, 11, 3), current_time = (9, 30, 0) \<rparr>"

definition clock_feb1 :: clock where
  "clock_feb1 = \<lparr> current_date = (2026, 2, 1), current_time = (9, 30, 0) \<rparr>"

section \<open>Properties\<close>

lemma rules_with_compare:
  "compare config = Some cmp \<Longrightarrow>
   rules (makeExtension toStr config) = assign (generated_rules toStr config cmp) (extraRules config)"
  by (simp add: makeExtension_def build_tables_def CHECKS_def add_comparison_def generated_rules_def
      Let_def split: prod.splits)

lemma rules_without_compare:
  "compare config = None \<Longrightarrow>
   rules (makeExtension toStr config) = assign Map.empty (extraRules config)"
  by (simp add: makeExtension_def build_tables_def)

lemma kinds_keep_generated: "config \<in> set (configs T) \<Longrightarrow> keeps_generated config"
  by (auto simp: configs_def keeps_generated_def comparison_names_def plainDate_config_def
      plainTime_config_def plainDateTime_config_def zonedDateTime_config_def instant_config_def
      duration_config_def plainYearMonth_config_def plainMonthDay_config_def)

lemma generated_lookup:
  assumes "compare config = Some cmp" "keeps_generated config" "rl \<in> set comparison_names"
  shows "rules (makeExtension toStr config) rl = generated_rules toStr config cmp rl"
  using assms
  by (auto simp: rules_with_compare assign_def keeps_generated_def comparison_names_def
      map_add_def split: option.splits)

lemma coerce_makeExtension [simp]: "coerce (makeExtension toStr config) = coerce_step config"
  by (simp add: makeExtension_def)

lemma validate_makeExtension [simp]:
  "validate_base (makeExtension toStr config) = validate_step config"
  by (simp add: makeExtension_def)

text \<open>
  C1. The coerce step of every kind, on every input: a null or undefined value and a value
  that is already an instance of the kind pass through as they are, nothing being parsed;
  any other value that is not a string fails with the base code \<open>temporal.<name>.base\<close>;
  a string is parsed, and the coerced value is the parsed one when \<open>parse\<close> returns and
  the same base error when \<open>parse\<close> throws, whatever it throws.
\<close>

theorem coerce_passes_parses_or_fails:
  "(loose_eq_null v \<or> check config v \<longrightarrow>
      coerce (makeExtension toStr config) v = Inr \<lparr> value_of = Some v, errors_of = None \<rparr>) \<and>
   (\<not> loose_eq_null v \<and> \<not> check config v \<and> typeof v \<noteq> ''string'' \<longrightarrow>
      coerce (makeExtension toStr config) v =
        Inr \<lparr> value_of = None,
              errors_of = Some \<lparr> code = ''temporal.'' @ name config @ ''.base'', local = [] \<rparr> \<rparr>) \<and>
   (\<not> check config (JString s) \<and> parse config s = Inr parsed \<longrightarrow>
      coerce (makeExtension toStr config) (JString s) =
        Inr \<lparr> value_of = Some parsed, errors_of = None \<rparr>) \<and>
   (\<not> check config (JString s) \<and> parse config s = Inl e \<longrightarrow>
      coerce (makeExtension toStr config) (JString s) =
        Inr \<lparr> value_of = None,
              errors_of = Some \<lparr> code = ''temporal.'' @ name config @ ''.base'', local = [] \<rparr> \<rparr>)"
proof (intro conjI impI)
  assume "loose_eq_null v \<or> check config v"
  then show "coerce (makeExtension toStr config) v = Inr \<lparr> value_of = Some v, errors_of = None \<rparr>"
    by (simp add: coerce_step_def)
next
  assume "\<not> loose_eq_null v \<and> \<not> check config v \<and> typeof v \<noteq> ''string''"
  then show "coerce (makeExtension toStr config) v =
      Inr \<lparr> value_of = None,
            errors_of = Some \<lparr> code = ''temporal.'' @ name config @ ''.base'', local = [] \<rparr> \<rparr>"
    by (cases v) (simp_all add: coerce_step_def helpers_error_def prefix_of_def)
next
  assume "\<not> check config (JString s) \<and> parse config s = Inr parsed"
  then show "coerce (makeExtension toStr config) (JString s) =
      Inr \<lparr> value_of = Some parsed, errors_of = None \<rparr>"
    by (simp add: coerce_step_def)
next
  assume "\<not> check config (JString s) \<and> parse config s = Inl e"
  then show "coerce (makeExtension toStr config) (JString s) =
      Inr \<lparr> value_of = None,
            errors_of = Some \<lparr> code = ''temporal.'' @ name config @ ''.base'', local = [] \<rparr> \<rparr>"
    by (simp add: coerce_step_def helpers_error_def prefix_of_def)
qed

lemma ref_check_plainDate [simp]:
  "check (plainDate_config Tref) v = ref_instanceof v PlainDate"
  by (simp add: plainDate_config_def Tref_def)

lemma ref_parse_plainDate [simp]:
  "parse (plainDate_config Tref) s = ref_from PlainDate s"
  by (simp add: plainDate_config_def Tref_def)

lemma name_plainDate [simp]: "name (plainDate_config T) = ''plainDate''"
  by (simp add: plainDate_config_def)

theorem coerce_passes_parses_or_fails_witness:
  "coerce (ref_extension (plainDate_config Tref)) JNull =
     Inr \<lparr> value_of = Some JNull, errors_of = None \<rparr> \<and>
   coerce (ref_extension (plainDate_config Tref)) (JObject (DateObj 2021 1 15)) =
     Inr \<lparr> value_of = Some (JObject (DateObj 2021 1 15)), errors_of = None \<rparr> \<and>
   coerce (ref_extension (plainDate_config Tref)) (JNumber 42) =
     Inr \<lparr> value_of = None,
           errors_of = Some \<lparr> code = ''temporal.plainDate.base'', local = [] \<rparr> \<rparr> \<and>
   coerce (ref_extension (plainDate_config Tref)) (JString ''2024-02-29'') =
     Inr \<lparr> value_of = Some (JObject (DateObj 2024 2 29)), errors_of = None \<rparr> \<and>
   coerce (ref_extension (plainDate_config Tref)) (JString ''2021-02-31'') =
     Inr \<lparr> value_of = None,
           errors_of = Some \<lparr> code = ''temporal.plainDate.base'', local = [] \<rparr> \<rparr>"
proof -
  have ok: "ref_from PlainDate ''2024-02-29'' = Inr (JObject (DateObj 2024 2 29))"
    by code_simp
  have bad: "ref_from PlainDate ''2021-02-31'' = Inl (RangeError ''Cannot parse: 2021-02-31'')"
    by code_simp
  note c = coerce_passes_parses_or_fails [where config = "plainDate_config Tref"
      and toStr = "toString Tref"]
  show ?thesis
    using c [of JNull] c [of "JObject (DateObj 2021 1 15)"] c [of "JNumber 42"]
      c [of _ "''2024-02-29''" "JObject (DateObj 2024 2 29)"]
      c [of _ "''2021-02-31''" _ "RangeError ''Cannot parse: 2021-02-31''"]
    by (simp add: ref_extension_def ok bad)
qed

lemma CHECKS_names: "(rl, chk) \<in> set CHECKS \<Longrightarrow> rl \<in> set comparison_names"
  by (auto simp: CHECKS_def comparison_names_def)

lemma call_comparison:
  assumes "compare config = Some cmp" "keeps_generated config" "(rl, chk) \<in> set CHECKS"
  shows "call_validate (makeExtension toStr config) rl clk v as =
         comparison_validate toStr config cmp rl chk clk v as"
proof -
  have "rules (makeExtension toStr config) rl = Some (comparison_rule toStr config cmp rl chk)"
    using assms generated_lookup [OF assms(1,2) CHECKS_names [OF assms(3)], of toStr]
    by (auto simp: CHECKS_def generated_rules_def)
  then show ?thesis
    by (simp add: call_validate_def comparison_rule_def)
qed

lemma comparison_validate_resolved:
  assumes "resolve_limit config clk (named as ''limit'') = Inr L" "cmp clk v L = Inr c"
  shows "comparison_validate toStr config cmp rl chk clk v as =
         (if chk c then Inr (Value v)
          else Inr (Report \<lparr> code = ''temporal.'' @ name config @ ''.'' @ rl,
                              local = [(''limit'', JString (String_js toStr L))] \<rparr>))"
  using assms by (simp add: comparison_validate_def helpers_error_def prefix_of_def)

lemma named_single [simp]: "named [(k, x)] k = x"
  by (simp add: named_def)

text \<open>
  C2. For every kind with a comparator, a value \<open>v\<close> and a limit that resolves to
  \<open>L\<close> with \<open>compare(v, L) = c\<close>: \<open>min\<close> accepts exactly when \<open>c \<ge> 0\<close>,
  \<open>max\<close> exactly when \<open>c \<le> 0\<close>, \<open>gt\<close> exactly when \<open>c > 0\<close> and \<open>lt\<close>
  exactly when \<open>c < 0\<close>. In particular at a tie (\<open>c = 0\<close>, which is what a
  comparator returns for a value used as its own limit) \<open>min\<close> and \<open>max\<close> pass and
  \<open>gt\<close> and \<open>lt\<close> fail with an error report.
\<close>

theorem tie_break_table:
  assumes "config \<in> set (configs T)" and "compare config = Some cmp"
    and "resolve_limit config clk limit = Inr L" and "cmp clk v L = Inr c"
  shows
    "((call_validate (makeExtension (toString T) config) ''min'' clk v [(''limit'', limit)]
        = Inr (Value v)) = (c \<ge> 0)) \<and>
     ((call_validate (makeExtension (toString T) config) ''max'' clk v [(''limit'', limit)]
        = Inr (Value v)) = (c \<le> 0)) \<and>
     ((call_validate (makeExtension (toString T) config) ''gt'' clk v [(''limit'', limit)]
        = Inr (Value v)) = (c > 0)) \<and>
     ((call_validate (makeExtension (toString T) config) ''lt'' clk v [(''limit'', limit)]
        = Inr (Value v)) = (c < 0)) \<and>
     (c = 0 \<longrightarrow>
        call_validate (makeExtension (toString T) config) ''min'' clk v [(''limit'', limit)]
          = Inr (Value v) \<and>
        call_validate (makeExtension (toString T) config) ''max'' clk v [(''limit'', limit)]
          = Inr (Value v) \<and>
        (\<exists>r. call_validate (makeExtension (toString T) config) ''gt'' clk v [(''limit'', limit)]
          = Inr (Report r)) \<and>
        (\<exists>r. call_validate (makeExtension (toString T) config) ''lt'' clk v [(''limit'', limit)]
          = Inr (Report r)))"
proof -
  note keep = kinds_keep_generated [OF assms(1)]
  have lim: "resolve_limit config clk (named [(''limit'', limit)] ''limit'') = Inr L"
    using assms(3) by simp
  have run: "call_validate (makeExtension (toString T) config) rl clk v [(''limit'', limit)] =
      (if chk c then Inr (Value v)
       else Inr (Report \<lparr> code = ''temporal.'' @ name config @ ''.'' @ rl,
                           local = [(''limit'', JString (String_js (toString T) L))] \<rparr>))"
    if "(rl, chk) \<in> set CHECKS" for rl chk
    using call_comparison [OF assms(2) keep that] comparison_validate_resolved [where cmp = cmp, OF lim assms(4)]
    by simp
  have "(''min'', \<lambda>c::int. c \<ge> 0) \<in> set CHECKS" "(''max'', \<lambda>c::int. c \<le> 0) \<in> set CHECKS"
    "(''gt'', \<lambda>c::int. c > 0) \<in> set CHECKS" "(''lt'', \<lambda>c::int. c < 0) \<in> set CHECKS"
    by (simp_all add: CHECKS_def)
  from this [THEN run] show ?thesis by simp
qed

lemma compare_fields_refl [simp]: "compare_fields xs xs = 0"
  by (induction xs) simp_all

lemma ref_comparators_reflexive:
  assumes "config \<in> set (configs Tref)" "check config v" "compare config = Some cmp"
  shows "cmp clk v v = Inr 0"
  using assms
  by (cases v)
     (auto simp: configs_def plainDate_config_def plainTime_config_def plainDateTime_config_def
        zonedDateTime_config_def instant_config_def duration_config_def plainYearMonth_config_def
        plainMonthDay_config_def Tref_def ref_compare_def ref_duration_compare_def to_kind_def
        compare_durations_def)

lemma compare_plainDate [simp]:
  "compare (plainDate_config T) = Some (\<lambda>clk a b. compare_static T PlainDate a b)"
  by (simp add: plainDate_config_def)

lemma now_plainDate [simp]:
  "now (plainDate_config T) = Some (\<lambda>clk. Now_plainDateISO T clk)"
  by (simp add: plainDate_config_def)

lemma plainDate_kind: "plainDate_config T \<in> set (configs T)"
  by (simp add: configs_def)

lemma resolve_instance [simp]: "resolve_limit config clk (JObject x) = Inr (JObject x)"
  by (simp add: resolve_limit_def split: option.splits bool.splits)

theorem tie_break_table_witness:
  "call_validate (ref_extension (plainDate_config Tref)) ''min'' clock_nov2
     (JObject (DateObj 2024 2 29)) [(''limit'', JObject (DateObj 2024 2 29))]
     = Inr (Value (JObject (DateObj 2024 2 29))) \<and>
   call_validate (ref_extension (plainDate_config Tref)) ''max'' clock_nov2
     (JObject (DateObj 2024 2 29)) [(''limit'', JObject (DateObj 2024 2 29))]
     = Inr (Value (JObject (DateObj 2024 2 29))) \<and>
   call_validate (ref_extension (plainDate_config Tref)) ''gt'' clock_nov2
     (JObject (DateObj 2024 2 29)) [(''limit'', JObject (DateObj 2024 2 29))]
     \<noteq> Inr (Value (JObject (DateObj 2024 2 29))) \<and>
   call_validate (ref_extension (plainDate_config Tref)) ''lt'' clock_nov2
     (JObject (DateObj 2024 2 29)) [(''limit'', JObject (DateObj 2024 2 29))]
     \<noteq> Inr (Value (JObject (DateObj 2024 2 29)))"
proof -
  have c: "compare_static Tref PlainDate (JObject (DateObj 2024 2 29))
             (JObject (DateObj 2024 2 29)) = Inr 0"
    by (simp add: Tref_def ref_compare_def to_kind_def)
  show ?thesis
    using tie_break_table [where T = Tref and config = "plainDate_config Tref"
        and cmp = "\<lambda>clk a b. compare_static Tref PlainDate a b" and clk = clock_nov2
        and limit = "JObject (DateObj 2024 2 29)" and L = "JObject (DateObj 2024 2 29)"
        and v = "JObject (DateObj 2024 2 29)" and c = 0]
    by (simp add: ref_extension_def plainDate_kind c)
qed



lemma comparison_validate_report:
  assumes "comparison_validate toStr config cmp rl chk clk v as = Inr (Report r)"
  shows "\<exists>L. resolve_limit config clk (named as ''limit'') = Inr L \<and>
             r = \<lparr> code = ''temporal.'' @ name config @ ''.'' @ rl,
                   local = [(''limit'', JString (String_js toStr L))] \<rparr>"
  using assms
  by (auto simp: comparison_validate_def helpers_error_def prefix_of_def
      split: sum.splits if_splits)

lemma resolve_now: "now config = Some current \<Longrightarrow> resolve_limit config clk (JString ''now'') = Inr (current clk)"
  by (simp add: resolve_limit_def)



lemma comparison_rule_lookup:
  assumes "compare config = Some cmp" "keeps_generated config" "(rl, chk) \<in> set CHECKS"
  shows "rules (makeExtension toStr config) rl = Some (comparison_rule toStr config cmp rl chk)"
  using assms generated_lookup [OF assms(1,2) CHECKS_names [OF assms(3)], of toStr]
  by (auto simp: CHECKS_def generated_rules_def)

lemma alias_lookup:
  assumes "compare config = Some cmp" "keeps_generated config"
  shows "rules (makeExtension toStr config) ''gte'' = Some (alias_rule ''min'')"
    and "rules (makeExtension toStr config) ''lte'' = Some (alias_rule ''max'')"
  using generated_lookup [OF assms, of "''gte''" toStr] generated_lookup [OF assms, of "''lte''" toStr]
  by (simp_all add: comparison_names_def generated_rules_def)

lemma positional_first [simp]: "positional (x # xs) 0 = x"
  by (simp add: positional_def)

lemma attach_comparison:
  assumes "compare config = Some cmp" "keeps_generated config" "(rl, chk) \<in> set CHECKS"
  shows "invoke (Suc depth) (makeExtension toStr config) rl [L] =
         (if typeof L = ''string'' \<or> check config L then Inr (rl, [(''limit'', L)])
          else Inl (Error ''limit must be a string or Temporal instance''))"
  using comparison_rule_lookup [OF assms, of toStr]
  by (simp add: add_rule_def failed_assert_def comparison_rule_def)

text \<open>
  C3. For every kind that defines \<open>now\<close> and every comparison rule: attaching the rule
  with the limit \<open>"now"\<close> stores the token itself (attaching takes no clock); the limit
  is resolved by \<open>now()\<close> when the validator runs, so that the outcome of a call at clock
  \<open>clk\<close> is the comparison against the current value at \<open>clk\<close>; and two calls on the
  same attached rule and the same value, at clocks whose current values compare differently,
  give different outcomes: one passes, the other fails with the text of its own current
  value as limit.
\<close>

theorem now_is_resolved_on_every_call:
  assumes "config \<in> set (configs T)" and "compare config = Some cmp"
    and "now config = Some current" and "(rl, chk) \<in> set CHECKS"
  shows
    "invoke (Suc depth) (makeExtension (toString T) config) rl [JString ''now''] =
       Inr (rl, [(''limit'', JString ''now'')]) \<and>
     resolve_limit config clk (JString ''now'') = Inr (current clk) \<and>
     call_validate (makeExtension (toString T) config) rl clk v [(''limit'', JString ''now'')] =
       (case cmp clk v (current clk) of
          Inl e \<Rightarrow> Inl e
        | Inr c \<Rightarrow>
            if chk c then Inr (Value v)
            else Inr (Report \<lparr> code = ''temporal.'' @ name config @ ''.'' @ rl,
                                local = [(''limit'',
                                          JString (String_js (toString T) (current clk)))] \<rparr>)) \<and>
     (cmp clk1 v (current clk1) = Inr c1 \<and> chk c1 \<and>
      cmp clk2 v (current clk2) = Inr c2 \<and> \<not> chk c2 \<longrightarrow>
        call_validate (makeExtension (toString T) config) rl clk1 v [(''limit'', JString ''now'')]
          = Inr (Value v) \<and>
        call_validate (makeExtension (toString T) config) rl clk2 v [(''limit'', JString ''now'')]
          = Inr (Report \<lparr> code = ''temporal.'' @ name config @ ''.'' @ rl,
                            local = [(''limit'',
                                      JString (String_js (toString T) (current clk2)))] \<rparr>))"
proof -
  note keep = kinds_keep_generated [OF assms(1)]
  have attach: "invoke (Suc depth) (makeExtension (toString T) config) rl [JString ''now''] =
      Inr (rl, [(''limit'', JString ''now'')])"
    using attach_comparison [OF assms(2) keep assms(4)] by simp
  have run: "call_validate (makeExtension (toString T) config) rl k v [(''limit'', JString ''now'')] =
      (case cmp k v (current k) of
         Inl e \<Rightarrow> Inl e
       | Inr c \<Rightarrow>
           if chk c then Inr (Value v)
           else Inr (Report \<lparr> code = ''temporal.'' @ name config @ ''.'' @ rl,
                               local = [(''limit'',
                                         JString (String_js (toString T) (current k)))] \<rparr>))" for k
    using call_comparison [OF assms(2) keep assms(4)] resolve_now [OF assms(3)]
    by (simp add: comparison_validate_def helpers_error_def prefix_of_def split: sum.splits)
  show ?thesis
    using attach resolve_now [OF assms(3)] run by simp
qed

theorem now_is_resolved_on_every_call_witness:
  "invoke 1 (ref_extension (plainDate_config Tref)) ''min'' [JString ''now''] =
     Inr (''min'', [(''limit'', JString ''now'')]) \<and>
   resolve_limit (plainDate_config Tref) clock_nov2 (JString ''now'') =
     Inr (JObject (DateObj 2026 11 2)) \<and>
   resolve_limit (plainDate_config Tref) clock_nov3 (JString ''now'') =
     Inr (JObject (DateObj 2026 11 3)) \<and>
   call_validate (ref_extension (plainDate_config Tref)) ''min'' clock_nov2
     (JObject (DateObj 2026 11 2)) [(''limit'', JString ''now'')] =
     Inr (Value (JObject (DateObj 2026 11 2))) \<and>
   call_validate (ref_extension (plainDate_config Tref)) ''min'' clock_nov3
     (JObject (DateObj 2026 11 2)) [(''limit'', JString ''now'')] =
     Inr (Report \<lparr> code = ''temporal.plainDate.min'',
                    local = [(''limit'', JString ''2026-11-03'')] \<rparr>) \<and>
   schema_validate clock_nov2 (ref_extension (plainDate_config Tref))
     [(''min'', [(''limit'', JString ''now'')])] (JString ''2026-11-02'') =
     Inr (Passed (JObject (DateObj 2026 11 2))) \<and>
   schema_validate clock_nov3 (ref_extension (plainDate_config Tref))
     [(''min'', [(''limit'', JString ''now'')])] (JString ''2026-11-02'') =
     Inr (Failed \<lparr> code = ''temporal.plainDate.min'',
                    local = [(''limit'', JString ''2026-11-03'')] \<rparr>)"
proof -
  have chk: "(''min'', \<lambda>c::int. c \<ge> 0) \<in> set CHECKS"
    by (simp add: CHECKS_def)
  have d2: "Now_plainDateISO Tref clock_nov2 = JObject (DateObj 2026 11 2)"
    and d3: "Now_plainDateISO Tref clock_nov3 = JObject (DateObj 2026 11 3)"
    by (simp_all add: Tref_def ref_now_date_def clock_nov2_def clock_nov3_def)
  have c2: "compare_static Tref PlainDate (JObject (DateObj 2026 11 2))
      (JObject (DateObj 2026 11 2)) = Inr 0"
    and c3: "compare_static Tref PlainDate (JObject (DateObj 2026 11 2))
      (JObject (DateObj 2026 11 3)) = Inr (- 1)"
    by (simp_all add: Tref_def ref_compare_def to_kind_def)
  have text3: "String_js (toString Tref) (JObject (DateObj 2026 11 3)) = ''2026-11-03''"
    by code_simp
  have s2: "schema_validate clock_nov2 (ref_extension (plainDate_config Tref))
      [(''min'', [(''limit'', JString ''now'')])] (JString ''2026-11-02'') =
      Inr (Passed (JObject (DateObj 2026 11 2)))"
    by code_simp
  have s3: "schema_validate clock_nov3 (ref_extension (plainDate_config Tref))
      [(''min'', [(''limit'', JString ''now'')])] (JString ''2026-11-02'') =
      Inr (Failed \<lparr> code = ''temporal.plainDate.min'',
                     local = [(''limit'', JString ''2026-11-03'')] \<rparr>)"
    by code_simp
  note inst = now_is_resolved_on_every_call [where T = Tref, OF plainDate_kind compare_plainDate
      now_plainDate chk,
      where depth = 0 and ?clk1.0 = clock_nov2 and ?clk2.0 = clock_nov3
        and v = "JObject (DateObj 2026 11 2)" and ?c1.0 = 0 and ?c2.0 = "- 1"]
  from inst [of clock_nov2] inst [of clock_nov3]
  show ?thesis
    using d2 d3 c2 c3 text3 s2 s3 by (simp add: ref_extension_def)
qed

lemma invoke_alias:
  assumes "compare config = Some cmp" "keeps_generated config"
  shows "invoke (Suc depth) (makeExtension toStr config) ''gte'' [L] =
         invoke depth (makeExtension toStr config) ''min'' [L]"
    and "invoke (Suc depth) (makeExtension toStr config) ''lte'' [L] =
         invoke depth (makeExtension toStr config) ''max'' [L]"
  using alias_lookup [OF assms, of toStr] by (simp_all add: alias_rule_def)

lemma run_single_comparison:
  assumes "compare config = Some cmp" "keeps_generated config" "(rl, chk) \<in> set CHECKS"
    and "run_rules clk (makeExtension toStr config) [(rl, as)] v = Inr (Failed r)"
  shows "code r = ''temporal.'' @ name config @ ''.'' @ rl"
proof -
  have "comparison_validate toStr config cmp rl chk clk v as = Inr (Report r)"
    using assms(4) comparison_rule_lookup [OF assms(1,2,3), of toStr]
    by (simp add: comparison_rule_def split: sum.splits rule_result.splits)
  from comparison_validate_report [OF this] show ?thesis by auto
qed

lemma kinds_no_alias_message:
  assumes "config \<in> set (configs T)"
  shows "messages (makeExtension toStr config) (''temporal.'' @ name config @ ''.gte'') = None"
    and "messages (makeExtension toStr config) (''temporal.'' @ name config @ ''.lte'') = None"
  using assms
  by (auto simp: makeExtension_def build_tables_def CHECKS_def add_comparison_def prefix_of_def
      Let_def configs_def assign_def plainDate_config_def plainTime_config_def
      plainDateTime_config_def zonedDateTime_config_def instant_config_def duration_config_def
      plainYearMonth_config_def plainMonthDay_config_def)

text \<open>
  C4. For every kind with a comparator and every limit: calling \<open>gte(L)\<close> on a schema
  is calling \<open>min(L)\<close>, and \<open>lte(L)\<close> is \<open>max(L)\<close>: the same rejection of a bad
  argument, and otherwise the same attached rule, named \<open>min\<close> (or \<open>max\<close>), so the same
  outcome of every validation; a failure carries the code \<open>temporal.<name>.min\<close> (or
  \<open>.max\<close>), and the message table has no code for \<open>gte\<close> or \<open>lte\<close>.
\<close>

theorem gte_lte_are_aliases:
  assumes "config \<in> set (configs T)" and "compare config = Some cmp"
  shows
    "invoke (Suc (Suc depth)) (makeExtension (toString T) config) ''gte'' [L] =
       invoke (Suc (Suc depth)) (makeExtension (toString T) config) ''min'' [L] \<and>
     invoke (Suc (Suc depth)) (makeExtension (toString T) config) ''lte'' [L] =
       invoke (Suc (Suc depth)) (makeExtension (toString T) config) ''max'' [L] \<and>
     (invoke (Suc (Suc depth)) (makeExtension (toString T) config) ''gte'' [L] = Inr entry
        \<longrightarrow> entry = (''min'', [(''limit'', L)]) \<and>
            (\<forall>clk v r. run_rules clk (makeExtension (toString T) config) [entry] v = Inr (Failed r)
               \<longrightarrow> code r = ''temporal.'' @ name config @ ''.min'')) \<and>
     (invoke (Suc (Suc depth)) (makeExtension (toString T) config) ''lte'' [L] = Inr entry
        \<longrightarrow> entry = (''max'', [(''limit'', L)]) \<and>
            (\<forall>clk v r. run_rules clk (makeExtension (toString T) config) [entry] v = Inr (Failed r)
               \<longrightarrow> code r = ''temporal.'' @ name config @ ''.max'')) \<and>
     messages (makeExtension (toString T) config) (''temporal.'' @ name config @ ''.gte'') = None \<and>
     messages (makeExtension (toString T) config) (''temporal.'' @ name config @ ''.lte'') = None"
proof -
  note keep = kinds_keep_generated [OF assms(1)]
  have mn: "(''min'', \<lambda>c::int. c \<ge> 0) \<in> set CHECKS" and mx: "(''max'', \<lambda>c::int. c \<le> 0) \<in> set CHECKS"
    by (simp_all add: CHECKS_def)
  have amin: "invoke (Suc d) (makeExtension (toString T) config) ''min'' [L] =
      (if typeof L = ''string'' \<or> check config L then Inr (''min'', [(''limit'', L)])
       else Inl (Error ''limit must be a string or Temporal instance''))" for d
    by (rule attach_comparison [OF assms(2) keep mn])
  have amax: "invoke (Suc d) (makeExtension (toString T) config) ''max'' [L] =
      (if typeof L = ''string'' \<or> check config L then Inr (''max'', [(''limit'', L)])
       else Inl (Error ''limit must be a string or Temporal instance''))" for d
    by (rule attach_comparison [OF assms(2) keep mx])
  have gte: "invoke (Suc (Suc depth)) (makeExtension (toString T) config) ''gte'' [L] =
      invoke (Suc (Suc depth)) (makeExtension (toString T) config) ''min'' [L]"
    unfolding invoke_alias(1) [OF assms(2) keep] amin ..
  have lte: "invoke (Suc (Suc depth)) (makeExtension (toString T) config) ''lte'' [L] =
      invoke (Suc (Suc depth)) (makeExtension (toString T) config) ''max'' [L]"
    unfolding invoke_alias(2) [OF assms(2) keep] amax ..
  have emin: "entry = (''min'', [(''limit'', L)])"
    if "invoke (Suc (Suc depth)) (makeExtension (toString T) config) ''gte'' [L] = Inr entry"
    using that unfolding gte amin by (simp split: if_splits)
  have emax: "entry = (''max'', [(''limit'', L)])"
    if "invoke (Suc (Suc depth)) (makeExtension (toString T) config) ''lte'' [L] = Inr entry"
    using that unfolding lte amax by (simp split: if_splits)
  have cmin: "code r = ''temporal.'' @ name config @ ''.min''"
    if "run_rules clk (makeExtension (toString T) config) [(''min'', [(''limit'', L)])] v
          = Inr (Failed r)" for clk v r
    using run_single_comparison [OF assms(2) keep mn that] by simp
  have cmax: "code r = ''temporal.'' @ name config @ ''.max''"
    if "run_rules clk (makeExtension (toString T) config) [(''max'', [(''limit'', L)])] v
          = Inr (Failed r)" for clk v r
    using run_single_comparison [OF assms(2) keep mx that] by simp
  show ?thesis
    using gte lte emin emax cmin cmax kinds_no_alias_message [OF assms(1), of "toString T"]
    by blast
qed

theorem gte_lte_are_aliases_witness:
  "invoke (Suc (Suc 0)) (ref_extension (plainDate_config Tref)) ''gte'' [JString ''2020-01-01''] =
     Inr (''min'', [(''limit'', JString ''2020-01-01'')]) \<and>
   invoke (Suc (Suc 0)) (ref_extension (plainDate_config Tref)) ''lte'' [JString ''2020-01-01''] =
     invoke (Suc (Suc 0)) (ref_extension (plainDate_config Tref)) ''max'' [JString ''2020-01-01''] \<and>
   code \<lparr> code = ''temporal.plainDate.min'',
          local = [(''limit'', JString ''2020-01-01'') :: string \<times> tobj jsval] \<rparr> =
     ''temporal.plainDate.min'' \<and>
   run_rules clock_nov2 (ref_extension (plainDate_config Tref))
     [(''min'', [(''limit'', JString ''2020-01-01'')])] (JObject (DateObj 2019 12 31)) =
     Inr (Failed \<lparr> code = ''temporal.plainDate.min'',
                    local = [(''limit'', JString ''2020-01-01'')] \<rparr>) \<and>
   messages (ref_extension (plainDate_config Tref)) ''temporal.plainDate.gte'' = None"
proof -
  have a: "invoke (Suc (Suc 0)) (makeExtension (toString Tref) (plainDate_config Tref)) ''min''
      [JString ''2020-01-01''] = Inr (''min'', [(''limit'', JString ''2020-01-01'')])"
    by code_simp
  have f: "run_rules clock_nov2 (makeExtension (toString Tref) (plainDate_config Tref))
      [(''min'', [(''limit'', JString ''2020-01-01'')])] (JObject (DateObj 2019 12 31)) =
      Inr (Failed \<lparr> code = ''temporal.plainDate.min'',
                     local = [(''limit'', JString ''2020-01-01'')] \<rparr>)"
    by code_simp
  from gte_lte_are_aliases [where T = Tref, OF plainDate_kind compare_plainDate,
      where depth = 0 and L = "JString ''2020-01-01''"
        and entry = "(''min'', [(''limit'', JString ''2020-01-01'')])"]
  show ?thesis
    using a f by (simp add: ref_extension_def del: invoke.simps)
qed

lemma rules_present:
  assumes "compare config \<noteq> None" "rl \<in> set comparison_names"
  shows "rules (makeExtension toStr config) rl \<noteq> None"
proof -
  from assms(1) obtain cmp where "compare config = Some cmp" by auto
  then show ?thesis
    using assms(2)
    by (auto simp: rules_with_compare assign_def generated_rules_def comparison_names_def
        map_add_def split: option.splits)
qed

lemma kinds_without_compare:
  assumes "config \<in> set (configs T)"
  shows "(compare config = None) = (name config = ''plainMonthDay'')"
    and "compare config = None \<Longrightarrow> extraRules config = None"
  using assms
  by (auto simp: configs_def plainDate_config_def plainTime_config_def plainDateTime_config_def
      zonedDateTime_config_def instant_config_def duration_config_def plainYearMonth_config_def
      plainMonthDay_config_def)

text \<open>
  C5. The month-day config has no \<open>compare\<close> and its extension has an empty rule table.
  Among the eight kinds it is the only one without \<open>compare\<close>; its table has none of
  \<open>min\<close>, \<open>max\<close>, \<open>gt\<close>, \<open>lt\<close>, \<open>gte\<close>, \<open>lte\<close>, and the table of every
  other kind has all six. For any descriptor at all: without \<open>compare\<close> the rule table is
  the extra rules and nothing else, and with \<open>compare\<close> all six names are in the table.
\<close>

theorem comparison_rules_only_with_compare:
  "compare (plainMonthDay_config (T :: ('o, 'clk) Temporal)) = None \<and>
   rules (makeExtension (toString T) (plainMonthDay_config T)) = Map.empty \<and>
   (\<forall>config \<in> set (configs T).
      (compare config = None) = (name config = ''plainMonthDay'') \<and>
      (compare config = None \<longrightarrow>
         (\<forall>rl \<in> set comparison_names. rules (makeExtension (toString T) config) rl = None)) \<and>
      (compare config \<noteq> None \<longrightarrow>
         (\<forall>rl \<in> set comparison_names. rules (makeExtension (toString T) config) rl \<noteq> None))) \<and>
   (compare (config' :: ('o, 'clk) TypeConfig) = None \<longrightarrow>
      rules (makeExtension toStr config') = assign Map.empty (extraRules config')) \<and>
   (compare config' \<noteq> None \<longrightarrow>
      (\<forall>rl \<in> set comparison_names. rules (makeExtension toStr config') rl \<noteq> None))"
proof -
  have md: "compare (plainMonthDay_config T) = None"
    "extraRules (plainMonthDay_config T) = None"
    by (simp_all add: plainMonthDay_config_def)
  have empty: "rules (makeExtension (toString T) (plainMonthDay_config T)) = Map.empty"
    using rules_without_compare [OF md(1)] md(2) by (simp add: assign_def)
  have none: "rules (makeExtension (toString T) config) rl = None"
    if "config \<in> set (configs T)" "compare config = None" for config rl
    using rules_without_compare [OF that(2), of "toString T"] kinds_without_compare(2) [OF that]
    by (simp add: assign_def)
  show ?thesis
    using md(1) empty none rules_present kinds_without_compare(1) rules_without_compare
    by (intro conjI ballI impI) blast+
qed

theorem comparison_rules_only_with_compare_witness:
  "rules (ref_extension (plainMonthDay_config Tref)) ''min'' = None \<and>
   rules (ref_extension (plainMonthDay_config Tref)) ''lte'' = None \<and>
   rules (ref_extension (duration_config Tref)) ''min'' \<noteq> None \<and>
   rules (ref_extension (duration_config Tref)) ''gte'' \<noteq> None"
proof -
  have k: "plainMonthDay_config Tref \<in> set (configs Tref)" "duration_config Tref \<in> set (configs Tref)"
    by (simp_all add: configs_def)
  have c: "compare (plainMonthDay_config Tref) = None" "compare (duration_config Tref) \<noteq> None"
    by (simp_all add: plainMonthDay_config_def duration_config_def)
  have n: "''min'' \<in> set comparison_names" "''lte'' \<in> set comparison_names"
    "''gte'' \<in> set comparison_names"
    by (simp_all add: comparison_names_def)
  from comparison_rules_only_with_compare [of Tref]
  show ?thesis
    using k c n unfolding ref_extension_def by blast
qed

lemma comparison_validate_throws:
  "(comparison_validate toStr config cmp rl chk clk v as = Inl e) =
     (resolve_limit config clk (named as ''limit'') = Inl e \<or>
      (\<exists>L. resolve_limit config clk (named as ''limit'') = Inr L \<and> cmp clk v L = Inl e))"
  by (auto simp: comparison_validate_def split: sum.splits)

lemma resolve_string:
  "s \<noteq> ''now'' \<or> now config = None \<Longrightarrow> resolve_limit config clk (JString s) = parse config s"
  by (auto simp: resolve_limit_def split: option.splits bool.splits)

text \<open>
  C6, as stated, fails. The claim is that a string limit the kind's \<open>parse\<close> cannot
  parse is rejected when the rule is attached and not at \<open>validate()\<close> time. On the
  instant kind, which has no \<open>now\<close>, attaching \<open>min("now")\<close> is accepted, although
  \<open>parse\<close> throws on \<open>"now"\<close>; the exception comes out of \<open>validate()\<close>.
\<close>

theorem unparseable_limit_counterexample:
  "invoke (Suc (Suc 0)) (ref_extension (instant_config Tref)) ''min'' [JString ''now''] =
     Inr (''min'', [(''limit'', JString ''now'')]) \<and>
   parse (instant_config Tref) ''now'' = Inl (RangeError ''Cannot parse: now'') \<and>
   schema_validate clock_nov2 (ref_extension (instant_config Tref))
     [(''min'', [(''limit'', JString ''now'')])] (JString ''2021-01-01T00:00:00Z'') =
     Inl (RangeError ''Cannot parse: now'')"
  by code_simp

text \<open>
  C6, amended. For every comparison rule of every kind with a comparator: the rule
  declares one argument, \<open>limit\<close>, and its assertion accepts a limit exactly when the
  limit is a string or an instance of the kind; so attaching the rule with any string
  limit, parseable or not, or with an instance, is accepted. A string limit that
  \<open>parse\<close> throws on, other than the token \<open>"now"\<close> on a kind that defines \<open>now\<close>
  (which is not parsed), is parsed when the validator runs, on every call, and the
  exception of \<open>parse\<close> leaves the validator.
\<close>

theorem string_limit_is_parsed_at_validation:
  assumes "config \<in> set (configs T)" and "compare config = Some cmp"
    and "(rl, chk) \<in> set CHECKS"
  shows
    "(\<exists>r sp. rules (makeExtension (toString T) config) rl = Some r \<and> args r = [sp] \<and>
        arg_name sp = ''limit'' \<and>
        (\<forall>x. assert sp x = (typeof x = ''string'' \<or> check config x))) \<and>
     (typeof L = ''string'' \<or> check config L \<longrightarrow>
        invoke (Suc depth) (makeExtension (toString T) config) rl [L] =
          Inr (rl, [(''limit'', L)])) \<and>
     (parse config s = Inl e \<and> (s \<noteq> ''now'' \<or> now config = None) \<longrightarrow>
        call_validate (makeExtension (toString T) config) rl clk v [(''limit'', JString s)]
          = Inl e)"
proof -
  note keep = kinds_keep_generated [OF assms(1)]
  have declared: "\<exists>r sp. rules (makeExtension (toString T) config) rl = Some r \<and>
      args r = [sp] \<and> arg_name sp = ''limit'' \<and>
      (\<forall>x. assert sp x = (typeof x = ''string'' \<or> check config x))"
    using comparison_rule_lookup [OF assms(2) keep assms(3), of "toString T"]
    by (simp add: comparison_rule_def)
  have attach: "invoke (Suc depth) (makeExtension (toString T) config) rl [L] =
      Inr (rl, [(''limit'', L)])"
    if "typeof L = ''string'' \<or> check config L"
    using attach_comparison [OF assms(2) keep assms(3), of depth "toString T" L] that
    by simp
  have thrown: "call_validate (makeExtension (toString T) config) rl clk v [(''limit'', JString s)]
      = Inl e"
    if "parse config s = Inl e" "s \<noteq> ''now'' \<or> now config = None"
    using call_comparison [OF assms(2) keep assms(3), of "toString T" clk v "[(''limit'', JString s)]"]
      resolve_string [OF that(2), of clk] that(1)
    by (simp add: comparison_validate_throws)
  show ?thesis
    using declared attach thrown by blast
qed

theorem string_limit_is_parsed_at_validation_witness:
  "invoke (Suc 0) (ref_extension (duration_config Tref)) ''max'' [JString ''soon''] =
     Inr (''max'', [(''limit'', JString ''soon'')]) \<and>
   invoke (Suc 0) (ref_extension (duration_config Tref)) ''max''
     [JObject (DurationObj 0 0 0 0 8 0 0)] =
     Inr (''max'', [(''limit'', JObject (DurationObj 0 0 0 0 8 0 0))]) \<and>
   call_validate (ref_extension (duration_config Tref)) ''max'' clock_nov2
     (JObject (DurationObj 0 0 0 0 1 0 0)) [(''limit'', JString ''soon'')] =
     Inl (RangeError ''Cannot parse: soon'') \<and>
   (\<exists>r sp. rules (ref_extension (duration_config Tref)) ''max'' = Some r \<and> args r = [sp] \<and>
      assert sp (JString ''soon'') \<and> assert sp (JObject (DurationObj 0 0 0 0 8 0 0)) \<and>
      \<not> assert sp (JNumber 42))"
proof -
  have k: "duration_config Tref \<in> set (configs Tref)"
    by (simp add: configs_def)
  have c: "compare (duration_config Tref) =
      Some (\<lambda>clk a b. Duration_compare Tref a b (Now_plainDateISO Tref clk))"
    by (simp add: duration_config_def)
  have chk: "(''max'', \<lambda>c::int. c \<le> 0) \<in> set CHECKS"
    by (simp add: CHECKS_def)
  have p: "parse (duration_config Tref) ''soon'' = Inl (RangeError ''Cannot parse: soon'')"
    by code_simp
  have n: "now (duration_config Tref) = None"
    by (simp add: duration_config_def)
  have t: "\<not> check (duration_config Tref) (JNumber 42)"
    "check (duration_config Tref) (JObject (DurationObj 0 0 0 0 8 0 0))"
    by (simp_all add: duration_config_def Tref_def)
  note inst = string_limit_is_parsed_at_validation [OF k c chk, where depth = 0
      and s = "''soon''" and e = "RangeError ''Cannot parse: soon''" and clk = clock_nov2
      and v = "JObject (DurationObj 0 0 0 0 1 0 0)"]
  have a1: "invoke (Suc 0) (ref_extension (duration_config Tref)) ''max'' [JString ''soon''] =
      Inr (''max'', [(''limit'', JString ''soon'')])"
    using inst [where L = "JString ''soon''", THEN conjunct2, THEN conjunct1]
    by (simp add: ref_extension_def del: invoke.simps)
  have a2: "invoke (Suc 0) (ref_extension (duration_config Tref)) ''max''
      [JObject (DurationObj 0 0 0 0 8 0 0)] =
      Inr (''max'', [(''limit'', JObject (DurationObj 0 0 0 0 8 0 0))])"
    using inst [where L = "JObject (DurationObj 0 0 0 0 8 0 0)", THEN conjunct2, THEN conjunct1] t(2)
    by (simp add: ref_extension_def del: invoke.simps)
  have a3: "call_validate (ref_extension (duration_config Tref)) ''max'' clock_nov2
      (JObject (DurationObj 0 0 0 0 1 0 0)) [(''limit'', JString ''soon'')] =
      Inl (RangeError ''Cannot parse: soon'')"
    using inst [where L = "JNull", THEN conjunct2, THEN conjunct2] p n
    by (simp add: ref_extension_def)
  have a4: "\<exists>r sp. rules (ref_extension (duration_config Tref)) ''max'' = Some r \<and>
      args r = [sp] \<and> assert sp (JString ''soon'') \<and>
      assert sp (JObject (DurationObj 0 0 0 0 8 0 0)) \<and> \<not> assert sp (JNumber 42)"
    using inst [where L = "JNull", THEN conjunct1] t
    by (auto simp: ref_extension_def)
  show ?thesis
    using a1 a2 a3 a4 by blast
qed

text \<open>
  C9, as stated, fails. The claim ends: the only place the module aborts rather than
  returning a per-value error is the startup check. With the library present the module
  loads, its year-month extension accepts \<open>max("2021-13")\<close> when the rule is attached, and
  validating the good input \<open>"2021-01"\<close> against it throws the exception of \<open>parse\<close>.
\<close>

theorem validator_throws_counterexample:
  "load_module (Some Tref) = Inr (extensions Tref) \<and>
   ref_extension (plainYearMonth_config Tref) = extensions Tref ! 6 \<and>
   invoke (Suc 0) (extensions Tref ! 6) ''max'' [JString ''2021-13''] =
     Inr (''max'', [(''limit'', JString ''2021-13'')]) \<and>
   schema_validate clock_nov2 (extensions Tref ! 6)
     [(''max'', [(''limit'', JString ''2021-13'')])] (JString ''2021-01'') =
     Inl (RangeError ''Cannot parse: 2021-13'')"
proof -
  have e: "extensions Tref ! 6 = ref_extension (plainYearMonth_config Tref)"
    by (simp add: extensions_def configs_def ref_extension_def)
  have a: "invoke (Suc 0) (ref_extension (plainYearMonth_config Tref)) ''max'' [JString ''2021-13''] =
     Inr (''max'', [(''limit'', JString ''2021-13'')])"
    by code_simp
  have v: "schema_validate clock_nov2 (ref_extension (plainYearMonth_config Tref))
     [(''max'', [(''limit'', JString ''2021-13'')])] (JString ''2021-01'') =
     Inl (RangeError ''Cannot parse: 2021-13'')"
    by code_simp
  show ?thesis
    unfolding e using a v by (simp add: load_module_def)
qed

text \<open>
  C9, amended. For every config and every input value the coerce step returns a result
  with either a value or an error, and the validate step returns a result holding the
  value; neither throws, and an exception of \<open>parse\<close> in coerce becomes the base error.
  Loading the module without the date/time library throws and yields no extension; with
  it, loading yields the eight extensions. The startup check is not the only place where an
  exception leaves the module instead of a per-value error: the validator of a comparison
  rule throws the exception of \<open>parse\<close> when its string limit cannot be parsed, the
  token \<open>"now"\<close> on a kind that defines \<open>now\<close> excepted, which is not parsed.
\<close>

theorem steps_never_throw:
  "(\<exists>res. coerce (makeExtension toStr config) v = Inr res \<and>
      ((value_of res \<noteq> None \<and> errors_of res = None) \<or>
       (value_of res = None \<and> errors_of res \<noteq> None))) \<and>
   (\<exists>res. validate_base (makeExtension toStr config) v = Inr res \<and> value_of res = Some v) \<and>
   (\<not> check config (JString s) \<and> parse config s = Inl e \<longrightarrow>
      coerce (makeExtension toStr config) (JString s) =
        Inr \<lparr> value_of = None,
              errors_of = Some \<lparr> code = ''temporal.'' @ name config @ ''.base'', local = [] \<rparr> \<rparr>) \<and>
   (\<exists>msg. load_module (None :: ('o, 'clk) Temporal option) = Inl (Error msg)) \<and>
   load_module (Some T) = Inr (extensions T) \<and>
   length (extensions T) = 8 \<and>
   (\<forall>kind_config \<in> set (configs T). \<forall>cmp rl chk.
      compare kind_config = Some cmp \<and> (rl, chk) \<in> set CHECKS \<and>
      parse kind_config t = Inl e' \<and> (t \<noteq> ''now'' \<or> now kind_config = None) \<longrightarrow>
        call_validate (makeExtension (toString T) kind_config) rl clk w [(''limit'', JString t)]
          = Inl e')"
proof -
  have co: "\<exists>res. coerce (makeExtension toStr config) v = Inr res \<and>
      ((value_of res \<noteq> None \<and> errors_of res = None) \<or>
       (value_of res = None \<and> errors_of res \<noteq> None))"
    by (cases v) (auto simp: coerce_step_def split: sum.splits)
  have va: "\<exists>res. validate_base (makeExtension toStr config) v = Inr res \<and> value_of res = Some v"
    by (simp add: validate_step_def)
  have caught: "coerce (makeExtension toStr config) (JString s) =
        Inr \<lparr> value_of = None,
              errors_of = Some \<lparr> code = ''temporal.'' @ name config @ ''.base'', local = [] \<rparr> \<rparr>"
    if "\<not> check config (JString s)" "parse config s = Inl e"
    using that by (simp add: coerce_step_def helpers_error_def prefix_of_def)
  have ld: "\<exists>msg. load_module (None :: ('o, 'clk) Temporal option) = Inl (Error msg)"
    "load_module (Some T) = Inr (extensions T)" "length (extensions T) = 8"
    by (simp_all add: load_module_def extensions_def configs_def)
  have thr: "call_validate (makeExtension (toString T) kc) rl clk w [(''limit'', JString t)]
      = Inl e'"
    if "kc \<in> set (configs T)" "compare kc = Some cmp" "(rl, chk) \<in> set CHECKS"
      "parse kc t = Inl e'" "t \<noteq> ''now'' \<or> now kc = None" for kc cmp rl chk
    using call_comparison [OF that(2) kinds_keep_generated [OF that(1)] that(3),
        of "toString T" clk w "[(''limit'', JString t)]"]
      resolve_string [OF that(5), of clk] that(4)
    by (simp add: comparison_validate_throws)
  show ?thesis
    using co va caught ld thr
    by (intro conjI ballI allI impI) blast+
qed

theorem steps_never_throw_witness:
  "coerce (ref_extension (plainDate_config Tref)) (JString ''foo'') =
     Inr \<lparr> value_of = None,
           errors_of = Some \<lparr> code = ''temporal.plainDate.base'', local = [] \<rparr> \<rparr> \<and>
   (\<exists>res. coerce (ref_extension (plainDate_config Tref)) (JBool True) = Inr res) \<and>
   (\<exists>res. validate_base (ref_extension (plainDate_config Tref)) (JString ''2021-01-15'') = Inr res
      \<and> value_of res = Some (JString ''2021-01-15'')) \<and>
   length (extensions Tref) = 8 \<and>
   call_validate (ref_extension (plainDate_config Tref)) ''lt'' clock_nov2
     (JObject (DateObj 2021 1 15)) [(''limit'', JString ''2021-02-31'')] =
     Inl (RangeError ''Cannot parse: 2021-02-31'')"
proof -
  have nc: "\<not> check (plainDate_config Tref) (JString ''foo'')"
    by simp
  have p: "parse (plainDate_config Tref) ''foo'' = Inl (RangeError ''Cannot parse: foo'')"
    by code_simp
  have lt: "(''lt'', \<lambda>c::int. c < 0) \<in> set CHECKS"
    by (simp add: CHECKS_def)
  have q: "parse (plainDate_config Tref) ''2021-02-31'' =
      Inl (RangeError ''Cannot parse: 2021-02-31'')"
    by code_simp
  have differs: "''2021-02-31'' \<noteq> ''now''"
    by simp
  note st = steps_never_throw [where T = Tref and config = "plainDate_config Tref"
      and toStr = "toString Tref" and s = "''foo''" and e = "RangeError ''Cannot parse: foo''"
      and t = "''2021-02-31''" and e' = "RangeError ''Cannot parse: 2021-02-31''"
      and clk = clock_nov2 and w = "JObject (DateObj 2021 1 15)"]
  have "call_validate (makeExtension (toString Tref) (plainDate_config Tref)) ''lt'' clock_nov2
      (JObject (DateObj 2021 1 15)) [(''limit'', JString ''2021-02-31'')] =
      Inl (RangeError ''Cannot parse: 2021-02-31'')"
    using st [where v = JNull] plainDate_kind [of Tref] compare_plainDate [of Tref] lt q differs
    by blast
  moreover have "coerce (ref_extension (plainDate_config Tref)) (JString ''foo'') =
     Inr \<lparr> value_of = None,
           errors_of = Some \<lparr> code = ''temporal.plainDate.base'', local = [] \<rparr> \<rparr>"
    using st [where v = JNull, THEN conjunct2, THEN conjunct2, THEN conjunct1] nc p
    by (simp add: ref_extension_def)
  moreover have "\<exists>res. coerce (ref_extension (plainDate_config Tref)) (JBool True) = Inr res"
    using st [where v = "JBool True"] unfolding ref_extension_def by blast
  moreover have "\<exists>res. validate_base (ref_extension (plainDate_config Tref))
      (JString ''2021-01-15'') = Inr res \<and> value_of res = Some (JString ''2021-01-15'')"
    using st [where v = "JString ''2021-01-15''"] unfolding ref_extension_def by blast
  moreover have "length (extensions Tref) = 8"
    using st [where v = JNull] by blast
  ultimately show ?thesis
    by (simp add: ref_extension_def)
qed

lemma comparison_validate_value:
  "comparison_validate toStr config cmp rl chk clk v as = Inr (Value v') \<Longrightarrow> v' = v"
  by (auto simp: comparison_validate_def split: sum.splits if_splits)

lemma extra_validate_value:
  "(timezone_validate T clk v as = Inr (Value v')) =
     (v' = v \<and> read_property (timeZoneId T) JUndefined v = Inr (named as ''tz''))"
  "(positive_validate T clk v as = Inr (Value v')) =
     (v' = v \<and> (\<exists>sg. read_property (sign T) None v = Inr sg \<and>
                      \<not> (case sg of Some n \<Rightarrow> n \<le> 0 | None \<Rightarrow> False)))"
  "(negative_validate T clk v as = Inr (Value v')) =
     (v' = v \<and> (\<exists>sg. read_property (sign T) None v = Inr sg \<and>
                      \<not> (case sg of Some n \<Rightarrow> n \<ge> 0 | None \<Rightarrow> False)))"
  "(nonzero_validate T clk v as = Inr (Value v')) =
     (v' = v \<and> (\<exists>sg. read_property (sign T) None v = Inr sg \<and>
                      \<not> (case sg of Some n \<Rightarrow> n = 0 | None \<Rightarrow> False)))"
  by (auto simp: timezone_validate_def positive_validate_def negative_validate_def
      nonzero_validate_def Let_def split: if_splits sum.splits)

lemma generated_validate_value:
  assumes "generated_rules toStr config cmp rl = Some r" "validate r = Some f"
    "f clk v as = Inr (Value v')"
  shows "v' = v"
  using assms
  by (auto simp: generated_rules_def comparison_rule_def alias_rule_def
      dest: comparison_validate_value split: if_splits)

lemma kinds_rule_value:
  assumes "config \<in> set (configs T)"
    and "rules (makeExtension toStr config) rl = Some r" "validate r = Some f"
    and "f clk v as = Inr (Value v')"
  shows "v' = v"
proof (cases "compare config")
  case None
  then show ?thesis
    using assms rules_without_compare [OF None, of toStr] kinds_without_compare(2) [OF assms(1)]
    by (simp add: assign_def)
next
  case (Some cmp)
  have "generated_rules toStr config cmp rl = Some r \<or>
        (\<exists>kvs. extraRules config = Some kvs \<and> map_of kvs rl = Some r)"
    using assms(2) unfolding rules_with_compare [OF Some]
    by (auto simp: assign_def map_add_def split: option.splits)
  then show ?thesis
  proof
    assume "generated_rules toStr config cmp rl = Some r"
    from generated_validate_value [OF this assms(3,4)] show ?thesis .
  next
    assume "\<exists>kvs. extraRules config = Some kvs \<and> map_of kvs rl = Some r"
    then show ?thesis
      using assms(1,3,4)
      by (auto simp: configs_def plainDate_config_def plainTime_config_def
          plainDateTime_config_def zonedDateTime_config_def instant_config_def
          duration_config_def plainYearMonth_config_def plainMonthDay_config_def
          extra_validate_value split: if_splits)
  qed
qed

lemma run_rules_value:
  assumes "config \<in> set (configs T)"
  shows "run_rules clk (makeExtension toStr config) rs v = Inr (Passed v') \<Longrightarrow> v' = v"
proof (induction rs arbitrary: v)
  case Nil
  then show ?case by simp
next
  case (Cons entry rs)
  obtain rl as where entry: "entry = (rl, as)" by (cases entry)
  show ?case
  proof (cases "rules (makeExtension toStr config) rl")
    case None
    with Cons.prems entry show ?thesis by simp
  next
    case (Some r)
    show ?thesis
    proof (cases "validate r")
      case None
      with Cons Some entry show ?thesis by simp
    next
      case f: (Some f)
      show ?thesis
      proof (cases "f clk v as")
        case (Inl e)
        with Cons.prems Some f entry show ?thesis by simp
      next
        case (Inr res)
        show ?thesis
        proof (cases res)
          case (Value v1)
          have "v1 = v"
            using kinds_rule_value [OF assms Some f] Inr Value by simp
          moreover have "run_rules clk (makeExtension toStr config) rs v1 = Inr (Passed v')"
            using Cons.prems Some f Inr Value entry by simp
          ultimately show ?thesis
            using Cons.IH by simp
        next
          case (Report err)
          with Cons.prems Some f Inr entry show ?thesis by simp
        qed
      qed
    qed
  qed
qed

text \<open>
  C10. For every kind: a validator of its rule table (a comparison rule, the timezone
  rule, a sign rule) that returns a value returns its input; the validate step returns the
  input as value, alone on success and next to the base error on failure; the coerce step
  returns a value other than its input only for a string, and then the value \<open>parse\<close>
  returned; so validating an instance of the kind against any attached rules, when it
  passes, yields that instance.
\<close>

theorem validators_return_the_input:
  assumes "config \<in> set (configs T)"
  shows
    "(rules (makeExtension (toString T) config) rl = Some r \<and> validate r = Some f \<and>
        f clk v as = Inr (Value v') \<longrightarrow> v' = v) \<and>
     validate_base (makeExtension (toString T) config) v =
       Inr \<lparr> value_of = Some v,
             errors_of = (if check config v then None
                          else Some \<lparr> code = ''temporal.'' @ name config @ ''.base'',
                                      local = [] \<rparr>) \<rparr> \<and>
     (coerce (makeExtension (toString T) config) v = Inr res \<and> value_of res = Some v'' \<and>
        v'' \<noteq> v \<longrightarrow> (\<exists>s. v = JString s \<and> parse config s = Inr v'')) \<and>
     (check config v \<and>
        schema_validate clk (makeExtension (toString T) config) attached_rules v
          = Inr (Passed v''') \<longrightarrow> v''' = v)"
proof -
  have rule: "v' = v"
    if "rules (makeExtension (toString T) config) rl = Some r" "validate r = Some f"
      "f clk v as = Inr (Value v')"
    using kinds_rule_value [OF assms that] .
  have base: "validate_base (makeExtension (toString T) config) v =
       Inr \<lparr> value_of = Some v,
             errors_of = (if check config v then None
                          else Some \<lparr> code = ''temporal.'' @ name config @ ''.base'',
                                      local = [] \<rparr>) \<rparr>"
    by (simp add: validate_step_def helpers_error_def prefix_of_def)
  have co: "\<exists>s. v = JString s \<and> parse config s = Inr v''"
    if "coerce (makeExtension (toString T) config) v = Inr res" "value_of res = Some v''" "v'' \<noteq> v"
    using that by (cases v) (auto simp: coerce_step_def split: if_splits sum.splits)
  have whole: "v''' = v"
    if "check config v"
      "schema_validate clk (makeExtension (toString T) config) attached_rules v = Inr (Passed v''')"
    using that run_rules_value [OF assms, of clk "toString T" attached_rules v v''']
    by (auto simp: schema_validate_def coerce_step_def validate_step_def Let_def split: if_splits)
  show ?thesis
    using rule base co whole by blast
qed

theorem validators_return_the_input_witness:
  "positive_validate Tref clock_nov2 (JObject (DurationObj 0 0 0 0 1 0 0)) [] =
     Inr (Value (JObject (DurationObj 0 0 0 0 1 0 0))) \<and>
   validate_base (ref_extension (duration_config Tref)) (JString ''PT1H'') =
     Inr \<lparr> value_of = Some (JString ''PT1H''),
           errors_of = Some \<lparr> code = ''temporal.duration.base'', local = [] \<rparr> \<rparr> \<and>
   coerce (ref_extension (duration_config Tref)) (JString ''PT1H'') =
     Inr \<lparr> value_of = Some (JObject (DurationObj 0 0 0 0 1 0 0)), errors_of = None \<rparr> \<and>
   parse (duration_config Tref) ''PT1H'' = Inr (JObject (DurationObj 0 0 0 0 1 0 0)) \<and>
   schema_validate clock_nov2 (ref_extension (duration_config Tref))
     [(''positive'', []), (''max'', [(''limit'', JString ''PT8H'')])]
     (JObject (DurationObj 0 0 0 0 1 0 0)) = Inr (Passed (JObject (DurationObj 0 0 0 0 1 0 0)))"
proof -
  have k: "duration_config Tref \<in> set (configs Tref)"
    by (simp add: configs_def)
  have pos: "positive_validate Tref clock_nov2 (JObject (DurationObj 0 0 0 0 1 0 0)) [] =
      Inr (Value (JObject (DurationObj 0 0 0 0 1 0 0)))"
    by (simp add: positive_validate_def read_property_def Tref_def)
  have co: "coerce (makeExtension (toString Tref) (duration_config Tref)) (JString ''PT1H'') =
      Inr \<lparr> value_of = Some (JObject (DurationObj 0 0 0 0 1 0 0)), errors_of = None \<rparr>"
    by code_simp
  have nc: "\<not> check (duration_config Tref) (JString ''PT1H'')"
    "check (duration_config Tref) (JObject (DurationObj 0 0 0 0 1 0 0))"
    by (simp_all add: duration_config_def Tref_def)
  have run: "schema_validate clock_nov2 (makeExtension (toString Tref) (duration_config Tref))
      [(''positive'', []), (''max'', [(''limit'', JString ''PT8H'')])]
      (JObject (DurationObj 0 0 0 0 1 0 0)) = Inr (Passed (JObject (DurationObj 0 0 0 0 1 0 0)))"
    by code_simp
  note inst = validators_return_the_input [OF k,
      where rl = "''positive''" and f = "positive_validate Tref" and clk = clock_nov2
        and as = "[]" and v' = "JObject (DurationObj 0 0 0 0 1 0 0)"
        and r = "\<lparr> method_of = (\<lambda>as. AddRule ''positive'' []), args = [],
                    validate = Some (positive_validate Tref) \<rparr>"
        and res = "\<lparr> value_of = Some (JObject (DurationObj 0 0 0 0 1 0 0)), errors_of = None \<rparr>"
        and v'' = "JObject (DurationObj 0 0 0 0 1 0 0)"
        and attached_rules = "[(''positive'', []), (''max'', [(''limit'', JString ''PT8H'')])]"
        and v''' = "JObject (DurationObj 0 0 0 0 1 0 0)"]
  have base: "validate_base (makeExtension (toString Tref) (duration_config Tref))
      (JString ''PT1H'') =
      Inr \<lparr> value_of = Some (JString ''PT1H''),
            errors_of = Some \<lparr> code = ''temporal.duration.base'', local = [] \<rparr> \<rparr>"
    using inst [where v = "JString ''PT1H''", THEN conjunct2, THEN conjunct1] nc(1)
    by (simp add: duration_config_def)
  have par: "parse (duration_config Tref) ''PT1H'' = Inr (JObject (DurationObj 0 0 0 0 1 0 0))"
    using inst [where v = "JString ''PT1H''", THEN conjunct2, THEN conjunct2, THEN conjunct1] co
    by simp
  show ?thesis
    using pos base co par run by (simp add: ref_extension_def)
qed

lemma fixed_units_cases:
  assumes "fixed_units v"
  obtains w d h mi s where "v = JObject (DurationObj 0 0 w d h mi s)"
  using assms by (cases v rule: fixed_units.cases) auto

lemma anchored_difference:
  "anchored_seconds r (DurationObj 0 0 w d h mi s) -
   anchored_seconds r (DurationObj 0 0 w' d' h' mi' s') =
     (7 * w - 7 * w') * 86400 + (exact_seconds (DurationObj 0 0 w d h mi s)
       - exact_seconds (DurationObj 0 0 w' d' h' mi' s'))"
  by (cases r) (simp add: algebra_simps split: prod.splits)

lemma ref_now_date_is_date: "\<exists>y m d. ref_now_date clk = JObject (DateObj y m d)"
  by (simp add: ref_now_date_def split: prod.splits)

lemma fixed_compare_same:
  assumes "fixed_units a" "fixed_units b"
  shows "ref_duration_compare a b (ref_now_date clk1) = ref_duration_compare a b (ref_now_date clk2)"
proof -
  from assms(1) obtain w d h mi s where a: "a = JObject (DurationObj 0 0 w d h mi s)"
    by (rule fixed_units_cases)
  from assms(2) obtain w' d' h' mi' s' where b: "b = JObject (DurationObj 0 0 w' d' h' mi' s')"
    by (rule fixed_units_cases)
  obtain y1 m1 e1 where c1: "ref_now_date clk1 = JObject (DateObj y1 m1 e1)"
    using ref_now_date_is_date by blast
  obtain y2 m2 e2 where c2: "ref_now_date clk2 = JObject (DateObj y2 m2 e2)"
    using ref_now_date_is_date by blast
  show ?thesis
    unfolding a b c1 c2
    by (simp add: ref_duration_compare_def to_kind_def compare_durations_def anchored_difference
        del: anchored_seconds.simps exact_seconds.simps)
qed

lemma duration_kind: "duration_config T \<in> set (configs T)"
  by (simp add: configs_def)

lemma compare_duration:
  "compare (duration_config T) =
     Some (\<lambda>clk a b. Duration_compare T a b (Now_plainDateISO T clk))"
  by (simp add: duration_config_def)

lemma call_duration_comparison:
  "(rl, chk) \<in> set CHECKS \<Longrightarrow>
   call_validate (makeExtension toStr (duration_config T)) rl clk v as =
     comparison_validate toStr (duration_config T)
       (\<lambda>clk a b. Duration_compare T a b (Now_plainDateISO T clk)) rl chk clk v as"
  by (rule call_comparison [OF compare_duration kinds_keep_generated [OF duration_kind]])

text \<open>
  C7. On the reference library, whose duration comparison follows section 4.4 of the
  specification: when the value and the resolved limit of a \<open>min\<close>, \<open>max\<close>, \<open>gt\<close> or
  \<open>lt\<close> rule of the duration kind are durations without years and months, the
  validator's result is the same at any two clocks. And on any library: the reference date
  handed to the comparison is the current date read at the clock of this very call.
\<close>

theorem fixed_unit_durations_ignore_the_date:
  assumes "fixed_units v" and "resolve_limit (duration_config Tref) clk1 limit = Inr L"
    and "fixed_units L" and "(rl, chk) \<in> set CHECKS"
  shows
    "call_validate (ref_extension (duration_config Tref)) rl clk1 v [(''limit'', limit)] =
       call_validate (ref_extension (duration_config Tref)) rl clk2 v [(''limit'', limit)] \<and>
     call_validate (makeExtension (toString T) (duration_config T)) rl clk (JObject x)
         [(''limit'', JObject y)] =
       (case Duration_compare T (JObject x) (JObject y) (Now_plainDateISO T clk) of
          Inl e \<Rightarrow> Inl e
        | Inr c \<Rightarrow>
            if chk c then Inr (Value (JObject x))
            else Inr (Report \<lparr> code = ''temporal.duration.'' @ rl,
                                local = [(''limit'', JString (toString T y))] \<rparr>))"
proof -
  have n: "now (duration_config Tref) = None"
    by (simp add: duration_config_def)
  have lim: "resolve_limit (duration_config Tref) clk2 limit = Inr L"
    using assms(2) n by (simp add: resolve_limit_def split: bool.splits)
  have cmp: "Duration_compare Tref v L (Now_plainDateISO Tref clk1) =
      Duration_compare Tref v L (Now_plainDateISO Tref clk2)"
    using fixed_compare_same [OF assms(1,3)] by (simp add: Tref_def)
  have same: "call_validate (ref_extension (duration_config Tref)) rl clk1 v [(''limit'', limit)] =
       call_validate (ref_extension (duration_config Tref)) rl clk2 v [(''limit'', limit)]"
    unfolding ref_extension_def call_duration_comparison [OF assms(4)]
    using assms(2) lim cmp by (simp add: comparison_validate_def)
  have fresh: "call_validate (makeExtension (toString T) (duration_config T)) rl clk (JObject x)
         [(''limit'', JObject y)] =
       (case Duration_compare T (JObject x) (JObject y) (Now_plainDateISO T clk) of
          Inl e \<Rightarrow> Inl e
        | Inr c \<Rightarrow>
            if chk c then Inr (Value (JObject x))
            else Inr (Report \<lparr> code = ''temporal.duration.'' @ rl,
                                local = [(''limit'', JString (toString T y))] \<rparr>))"
    unfolding call_duration_comparison [OF assms(4)]
    by (simp add: comparison_validate_def helpers_error_def prefix_of_def duration_config_def
        split: sum.splits)
  show ?thesis
    using same fresh by simp
qed

theorem fixed_unit_durations_ignore_the_date_witness:
  "call_validate (ref_extension (duration_config Tref)) ''min'' clock_feb1
     (JObject (DurationObj 0 0 0 0 0 90 0)) [(''limit'', JString ''PT1H'')] =
   call_validate (ref_extension (duration_config Tref)) ''min'' clock_nov2
     (JObject (DurationObj 0 0 0 0 0 90 0)) [(''limit'', JString ''PT1H'')] \<and>
   call_validate (ref_extension (duration_config Tref)) ''min'' clock_nov2
     (JObject (DurationObj 0 1 0 0 0 0 0)) [(''limit'', JObject (DurationObj 0 0 0 30 0 0 0))] =
     Inr (Value (JObject (DurationObj 0 1 0 0 0 0 0))) \<and>
   call_validate (ref_extension (duration_config Tref)) ''min'' clock_feb1
     (JObject (DurationObj 0 1 0 0 0 0 0)) [(''limit'', JObject (DurationObj 0 0 0 30 0 0 0))] =
     Inr (Report \<lparr> code = ''temporal.duration.min'',
                    local = [(''limit'', JString ''P30D'')] \<rparr>)"
proof -
  have f: "fixed_units (JObject (DurationObj 0 0 0 0 0 90 0))"
    "fixed_units (JObject (DurationObj 0 0 0 0 1 0 0))"
    by simp_all
  have l: "resolve_limit (duration_config Tref) clock_feb1 (JString ''PT1H'') =
      Inr (JObject (DurationObj 0 0 0 0 1 0 0))"
    by code_simp
  have chk: "(''min'', \<lambda>c::int. c \<ge> 0) \<in> set CHECKS"
    by (simp add: CHECKS_def)
  have nov: "Duration_compare Tref (JObject (DurationObj 0 1 0 0 0 0 0))
      (JObject (DurationObj 0 0 0 30 0 0 0)) (Now_plainDateISO Tref clock_nov2) = Inr 0"
    by code_simp
  have feb: "Duration_compare Tref (JObject (DurationObj 0 1 0 0 0 0 0))
      (JObject (DurationObj 0 0 0 30 0 0 0)) (Now_plainDateISO Tref clock_feb1) = Inr (- 1)"
    by code_simp
  have shown: "toString Tref (DurationObj 0 0 0 30 0 0 0) = ''P30D''"
    by code_simp
  note inst = fixed_unit_durations_ignore_the_date [OF f(1) l f(2) chk,
      where ?clk2.0 = clock_nov2 and T = Tref and x = "DurationObj 0 1 0 0 0 0 0"
        and y = "DurationObj 0 0 0 30 0 0 0"]
  show ?thesis
    using inst [of clock_nov2, THEN conjunct1]
      inst [of clock_nov2, THEN conjunct2] inst [of clock_feb1, THEN conjunct2]
    by (simp add: nov feb shown ref_extension_def)
qed


end
